theory Spec2Isabelle
  imports Main "HOL-Library.Word"
begin

unbundle bit_operations_syntax

section \<open>Tensor-core joint matrices: data model (matrix-tensorcore.hpp)\<close>

text \<open>
  The element types the header names. A template argument can be any type, so
  \<open>other_type\<close> stands for every type the header never mentions.
\<close>

datatype ctype =
  bfloat16 | half | double | uint16_t | int8_t | uint8_t | int32_t | float
  | other_type string

text \<open>\<^verbatim>\<open>enum class matrix_use { a, b, accumulator }\<close>\<close>

datatype matrix_use = use_a | use_b | accumulator

text \<open>\<^verbatim>\<open>enum class matrix_layout { row_major, col_major, packed_a, packed_b }\<close>\<close>

datatype matrix_layout = row_major | col_major | packed_a | packed_b

text \<open>
  The single data member of a \<open>joint_matrix\<close> specialisation:
  \<^verbatim>\<open>frag_type data[frag_size]\<close> (macro \<open>__SYCL_JOINT_MATRIX_OVERLOAD\<close>) or
  \<^verbatim>\<open>sycl::marray<type, size> data\<close> (macro \<open>__SYCL_JOINT_MATRIX_OVERLOAD_ARR\<close>).
\<close>

datatype storage = c_array ctype nat | marray ctype nat

fun storage_type :: "storage \<Rightarrow> ctype" where
  "storage_type (c_array t n) = t"
| "storage_type (marray t n) = t"

fun storage_size :: "storage \<Rightarrow> nat" where
  "storage_size (c_array t n) = n"
| "storage_size (marray t n) = n"

text \<open>
  The macro invocations that are not commented out, in the order of the header.
  \<open>SYCL_JOINT_MATRIX_OVERLOAD_ARR type use M N size\<close> declares an \<open>marray\<close> of the
  element type itself; \<open>SYCL_JOINT_MATRIX_OVERLOAD type use M N frag_type frag_size\<close>
  declares a plain array of \<open>frag_type\<close>.
\<close>

definition SYCL_JOINT_MATRIX_OVERLOAD_ARR ::
  "ctype \<Rightarrow> matrix_use \<Rightarrow> nat \<Rightarrow> nat \<Rightarrow> nat \<Rightarrow> (ctype \<times> matrix_use \<times> nat \<times> nat) \<times> storage" where
  "SYCL_JOINT_MATRIX_OVERLOAD_ARR type use M N sz = ((type, use, M, N), marray type sz)"

definition SYCL_JOINT_MATRIX_OVERLOAD ::
  "ctype \<Rightarrow> matrix_use \<Rightarrow> nat \<Rightarrow> nat \<Rightarrow> ctype \<Rightarrow> nat \<Rightarrow> (ctype \<times> matrix_use \<times> nat \<times> nat) \<times> storage" where
  "SYCL_JOINT_MATRIX_OVERLOAD type use M N frag_type frag_size =
     ((type, use, M, N), c_array frag_type frag_size)"

definition joint_matrix_table :: "((ctype \<times> matrix_use \<times> nat \<times> nat) \<times> storage) list" where
  "joint_matrix_table =
   [ SYCL_JOINT_MATRIX_OVERLOAD_ARR bfloat16 use_a 16 16 8,
     SYCL_JOINT_MATRIX_OVERLOAD_ARR bfloat16 use_b 16 16 8,
     SYCL_JOINT_MATRIX_OVERLOAD_ARR bfloat16 use_a 8 16 4,
     SYCL_JOINT_MATRIX_OVERLOAD_ARR bfloat16 use_b 16 32 16,
     SYCL_JOINT_MATRIX_OVERLOAD_ARR bfloat16 use_a 32 16 16,
     SYCL_JOINT_MATRIX_OVERLOAD_ARR bfloat16 use_b 16 8 4,
     \<comment> \<open>m8n32k16\<close>
     SYCL_JOINT_MATRIX_OVERLOAD_ARR half use_a 8 16 16,
     SYCL_JOINT_MATRIX_OVERLOAD_ARR half use_b 16 32 16,
     SYCL_JOINT_MATRIX_OVERLOAD_ARR half accumulator 8 32 8,
     SYCL_JOINT_MATRIX_OVERLOAD_ARR half use_a 32 16 16,
     SYCL_JOINT_MATRIX_OVERLOAD_ARR half use_b 16 8 16,
     SYCL_JOINT_MATRIX_OVERLOAD_ARR half accumulator 32 8 8,
     SYCL_JOINT_MATRIX_OVERLOAD_ARR half use_a 16 16 16,
     SYCL_JOINT_MATRIX_OVERLOAD_ARR half use_b 16 16 16,
     SYCL_JOINT_MATRIX_OVERLOAD_ARR half accumulator 16 16 8,
     \<comment> \<open>m8n8k4 double only\<close>
     SYCL_JOINT_MATRIX_OVERLOAD double use_a 8 4 double 1,
     SYCL_JOINT_MATRIX_OVERLOAD double use_b 4 8 double 1,
     SYCL_JOINT_MATRIX_OVERLOAD double accumulator 8 8 double 2,
     \<comment> \<open>m8n32k16\<close>
     SYCL_JOINT_MATRIX_OVERLOAD uint16_t use_a 8 16 int32_t 2,
     SYCL_JOINT_MATRIX_OVERLOAD uint16_t use_b 16 32 int32_t 8,
     SYCL_JOINT_MATRIX_OVERLOAD float accumulator 8 32 float 8,
     SYCL_JOINT_MATRIX_OVERLOAD int8_t use_a 8 16 int32_t 1,
     SYCL_JOINT_MATRIX_OVERLOAD int8_t use_b 16 32 int32_t 4,
     SYCL_JOINT_MATRIX_OVERLOAD uint8_t use_a 8 16 int32_t 1,
     SYCL_JOINT_MATRIX_OVERLOAD uint8_t use_b 16 32 int32_t 4,
     SYCL_JOINT_MATRIX_OVERLOAD int32_t accumulator 8 32 int32_t 8,
     \<comment> \<open>m32n8k16\<close>
     SYCL_JOINT_MATRIX_OVERLOAD uint16_t use_a 32 16 int32_t 8,
     SYCL_JOINT_MATRIX_OVERLOAD uint16_t use_b 16 8 int32_t 2,
     SYCL_JOINT_MATRIX_OVERLOAD float accumulator 32 8 float 8,
     SYCL_JOINT_MATRIX_OVERLOAD int8_t use_a 32 16 int32_t 4,
     SYCL_JOINT_MATRIX_OVERLOAD int8_t use_b 16 8 int32_t 1,
     SYCL_JOINT_MATRIX_OVERLOAD uint8_t use_a 32 16 int32_t 4,
     SYCL_JOINT_MATRIX_OVERLOAD uint8_t use_b 16 8 int32_t 1,
     SYCL_JOINT_MATRIX_OVERLOAD int32_t accumulator 32 8 int32_t 8,
     \<comment> \<open>m16n16k16\<close>
     SYCL_JOINT_MATRIX_OVERLOAD uint16_t use_a 16 16 int32_t 4,
     SYCL_JOINT_MATRIX_OVERLOAD uint16_t use_b 16 16 int32_t 4,
     SYCL_JOINT_MATRIX_OVERLOAD float accumulator 16 16 float 8,
     SYCL_JOINT_MATRIX_OVERLOAD int8_t use_a 16 16 int32_t 2,
     SYCL_JOINT_MATRIX_OVERLOAD int8_t use_b 16 16 int32_t 2,
     SYCL_JOINT_MATRIX_OVERLOAD uint8_t use_a 16 16 int32_t 2,
     SYCL_JOINT_MATRIX_OVERLOAD uint8_t use_b 16 16 int32_t 2,
     SYCL_JOINT_MATRIX_OVERLOAD int32_t accumulator 16 16 int32_t 8 ]"

text \<open>
  \<open>joint_matrix T Use Rows Cols Layout\<close> is the data member of the specialisation
  \<^verbatim>\<open>joint_matrix<T, Use, Rows, Cols, Layout, sycl::sub_group>\<close>, or \<open>None\<close> when only
  the primary template (declared, never defined) matches: every specialisation is
  enabled for \<open>row_major\<close> and \<open>col_major\<close> only.
\<close>

definition joint_matrix ::
  "ctype \<Rightarrow> matrix_use \<Rightarrow> nat \<Rightarrow> nat \<Rightarrow> matrix_layout \<Rightarrow> storage option" where
  "joint_matrix T Use Rows Cols Layout =
     (if Layout = row_major \<or> Layout = col_major
      then map_of joint_matrix_table (T, Use, Rows, Cols)
      else None)"

subsection \<open>Layout identifiers\<close>

text \<open>
  \<open>get_layout_id\<close> and \<open>get_layout_pair_id\<close> are function templates with explicit
  specialisations only; \<open>None\<close> is a layout with no specialisation.
\<close>

fun get_layout_id :: "matrix_layout \<Rightarrow> int option" where
  "get_layout_id row_major = Some 0"
| "get_layout_id col_major = Some 1"
| "get_layout_id _ = None"

fun get_layout_pair_id :: "matrix_layout \<Rightarrow> matrix_layout \<Rightarrow> int option" where
  "get_layout_pair_id row_major row_major = Some 0"
| "get_layout_pair_id row_major col_major = Some 1"
| "get_layout_pair_id col_major row_major = Some 2"
| "get_layout_pair_id col_major col_major = Some 3"
| "get_layout_pair_id _ _ = None"


section \<open>Intrinsic calls\<close>

text \<open>
  The hardware instructions are compiler builtins, outside the sources. A call of one is
  recorded with its name and its operands as the header writes them.

  A \<open>location\<close> is an object the code points at: the memory a \<open>multi_ptr\<close> holds
  (\<open>address n\<close>), a \<open>joint_matrix\<close> object of the caller (its address), or one of the
  four objects in the body of \<open>mad\<close>: the by-value parameters \<open>A\<close>, \<open>B\<close>, \<open>C\<close> and
  the local \<open>D\<close>.
\<close>

datatype location = address nat | A_data | B_data | C_data | D_data

text \<open>
  A pointer operand is either passed as declared (\<^verbatim>\<open>res.data\<close>, \<^verbatim>\<open>src.get()\<close>) or
  through \<^verbatim>\<open>reinterpret_cast<t *>\<close>: the same object, read as an array of \<open>t\<close>.
\<close>

datatype operand = as_declared location | reinterpret_cast ctype location

fun operand_location :: "operand \<Rightarrow> location" where
  "operand_location (as_declared l) = l"
| "operand_location (reinterpret_cast t l) = l"

text \<open>
  \<open>ld_st name dst src stride layout\<close> is a load or a store builtin called as
  \<^verbatim>\<open>name(dst, src, stride, layout)\<close>.
\<close>

datatype ld_st_call = ld_st string operand operand nat int

fun ld_st_dst :: "ld_st_call \<Rightarrow> operand" where
  "ld_st_dst (ld_st n d s st l) = d"

fun ld_st_src :: "ld_st_call \<Rightarrow> operand" where
  "ld_st_src (ld_st n d s st l) = s"

fun ld_st_stride :: "ld_st_call \<Rightarrow> nat" where
  "ld_st_stride (ld_st n d s st l) = st"

text \<open>
  \<open>mma name d a b c layout satf\<close> is a multiply-accumulate builtin called as
  \<^verbatim>\<open>name(d, a, b, c, layout, satf)\<close>.
\<close>

datatype mma_call = mma string operand operand operand operand int int

fun mma_operands :: "mma_call \<Rightarrow> operand list" where
  "mma_operands (mma n d a b c l sf) = [d, a, b, c]"

section \<open>joint_matrix_load_impl::load\<close>

text \<open>
  The partial specialisation for \<open>row_major\<close> and \<open>col_major\<close> defines \<open>load\<close>; the
  primary template only declares it, and \<open>None\<close> is that case (no body to run).
  The result is the list of builtins the body calls: the \<^verbatim>\<open>if constexpr\<close> chains
  have no final \<^verbatim>\<open>else\<close>, so a combination that matches no branch calls nothing.
  \<open>res\<close> is the \<open>joint_matrix\<close> object passed by reference, \<open>src\<close> the memory the
  \<open>multi_ptr\<close> holds.
\<close>

definition load ::
  "ctype \<Rightarrow> matrix_use \<Rightarrow> nat \<Rightarrow> nat \<Rightarrow> matrix_layout \<Rightarrow> location \<Rightarrow> location \<Rightarrow> nat
     \<Rightarrow> ld_st_call list option" where
  "load T Use NumRows NumCols Layout res src stride =
    (if Layout = row_major \<or> Layout = col_major then
      (case get_layout_id Layout of
        None \<Rightarrow> None
      | Some layout_id \<Rightarrow> Some (
        if T = uint16_t \<or> T = bfloat16 then
          (let tileptr = reinterpret_cast int32_t src;
               destptr = reinterpret_cast int32_t res in
           if NumRows = 16 \<and> NumCols = 16 then
             (if Use = use_a then
                [ld_st ''__mma_bf16_m16n16k16_ld_a'' destptr tileptr stride layout_id]
              else if Use = use_b then
                [ld_st ''__mma_bf16_m16n16k16_ld_b'' destptr tileptr stride layout_id]
              else [])
           else if NumRows = 8 \<and> NumCols = 16 then
             [ld_st ''__mma_bf16_m8n32k16_ld_a'' destptr tileptr stride layout_id]
           else if NumRows = 16 \<and> NumCols = 32 then
             [ld_st ''__mma_bf16_m8n32k16_ld_b'' destptr tileptr stride layout_id]
           else if NumRows = 32 \<and> NumCols = 16 then
             [ld_st ''__mma_bf16_m32n8k16_ld_a'' destptr tileptr stride layout_id]
           else if NumRows = 16 \<and> NumCols = 8 then
             [ld_st ''__mma_bf16_m32n8k16_ld_b'' destptr tileptr stride layout_id]
           else [])
        else if T = uint8_t then
          (let tileptr = reinterpret_cast int32_t src in
           if NumRows = 16 \<and> NumCols = 16 then
             (if Use = use_a then
                [ld_st ''__imma_m16n16k16_ld_a_u8'' (as_declared res) tileptr stride layout_id]
              else if Use = use_b then
                [ld_st ''__imma_m16n16k16_ld_b_u8'' (as_declared res) tileptr stride layout_id]
              else [])
           else if NumRows = 8 \<and> NumCols = 16 then
             [ld_st ''__imma_m8n32k16_ld_a_u8'' (as_declared res) tileptr stride layout_id]
           else if NumRows = 16 \<and> NumCols = 32 then
             [ld_st ''__imma_m8n32k16_ld_b_u8'' (as_declared res) tileptr stride layout_id]
           else if NumRows = 32 \<and> NumCols = 16 then
             [ld_st ''__imma_m32n8k16_ld_a_u8'' (as_declared res) tileptr stride layout_id]
           else if NumRows = 16 \<and> NumCols = 8 then
             [ld_st ''__imma_m32n8k16_ld_b_u8'' (as_declared res) tileptr stride layout_id]
           else [])
        else if T = int8_t then
          (let tileptr = reinterpret_cast int32_t src in
           if NumRows = 16 \<and> NumCols = 16 then
             (if Use = use_a then
                [ld_st ''__imma_m16n16k16_ld_a_s8'' (as_declared res) tileptr stride layout_id]
              else if Use = use_b then
                [ld_st ''__imma_m16n16k16_ld_b_s8'' (as_declared res) tileptr stride layout_id]
              else [])
           else if NumRows = 8 \<and> NumCols = 16 then
             [ld_st ''__imma_m8n32k16_ld_a_s8'' (as_declared res) tileptr stride layout_id]
           else if NumRows = 16 \<and> NumCols = 32 then
             [ld_st ''__imma_m8n32k16_ld_b_s8'' (as_declared res) tileptr stride layout_id]
           else if NumRows = 32 \<and> NumCols = 16 then
             [ld_st ''__imma_m32n8k16_ld_a_s8'' (as_declared res) tileptr stride layout_id]
           else if NumRows = 16 \<and> NumCols = 8 then
             [ld_st ''__imma_m32n8k16_ld_b_s8'' (as_declared res) tileptr stride layout_id]
           else [])
        else if T = half then
          (let tileptr = reinterpret_cast int32_t src;
               dstptr = reinterpret_cast int32_t res in
           if NumRows = 16 \<and> NumCols = 16 then
             (if Use = use_a then
                [ld_st ''__hmma_m16n16k16_ld_a'' dstptr tileptr stride layout_id]
              else if Use = use_b then
                [ld_st ''__hmma_m16n16k16_ld_b'' dstptr tileptr stride layout_id]
              else if Use = accumulator then
                [ld_st ''__hmma_m16n16k16_ld_c_f16'' dstptr tileptr stride layout_id]
              else [])
           else if NumRows = 8 \<and> NumCols = 16 then
             [ld_st ''__hmma_m8n32k16_ld_a'' dstptr tileptr stride layout_id]
           else if NumRows = 16 \<and> NumCols = 32 then
             [ld_st ''__hmma_m8n32k16_ld_b'' dstptr tileptr stride layout_id]
           else if NumRows = 32 \<and> NumCols = 16 then
             [ld_st ''__hmma_m32n8k16_ld_a'' dstptr tileptr stride layout_id]
           else if NumRows = 16 \<and> NumCols = 8 then
             [ld_st ''__hmma_m32n8k16_ld_b'' dstptr tileptr stride layout_id]
           else if NumRows = 32 \<and> NumCols = 8 then
             [ld_st ''__hmma_m32n8k16_ld_c_f16'' dstptr tileptr stride layout_id]
           else if NumRows = 8 \<and> NumCols = 32 then
             [ld_st ''__hmma_m8n32k16_ld_c_f16'' dstptr tileptr stride layout_id]
           else [])
        else if T = int32_t then
          (if NumRows = 16 \<and> NumCols = 16 then
             [ld_st ''__imma_m16n16k16_ld_c'' (as_declared res) (as_declared src) stride layout_id]
           else if NumRows = 8 \<and> NumCols = 32 then
             [ld_st ''__imma_m8n32k16_ld_c'' (as_declared res) (as_declared src) stride layout_id]
           else if NumRows = 32 \<and> NumCols = 8 then
             [ld_st ''__imma_m32n8k16_ld_c'' (as_declared res) (as_declared src) stride layout_id]
           else [])
        else if T = float then
          (if NumRows = 16 \<and> NumCols = 16 then
             [ld_st ''__hmma_m16n16k16_ld_c_f32'' (as_declared res) (as_declared src) stride layout_id]
           else if NumRows = 8 \<and> NumCols = 32 then
             [ld_st ''__hmma_m8n32k16_ld_c_f32'' (as_declared res) (as_declared src) stride layout_id]
           else if NumRows = 32 \<and> NumCols = 8 then
             [ld_st ''__hmma_m32n8k16_ld_c_f32'' (as_declared res) (as_declared src) stride layout_id]
           else [])
        else if T = double then
          (if Use = use_a then
             [ld_st ''__dmma_m8n8k4_ld_a'' (as_declared res) (as_declared src) stride layout_id]
           else if Use = use_b then
             [ld_st ''__dmma_m8n8k4_ld_b'' (as_declared res) (as_declared src) stride layout_id]
           else if Use = accumulator then
             [ld_st ''__dmma_m8n8k4_ld_c'' (as_declared res) (as_declared src) stride layout_id]
           else [])
        else []))
     else None)"

section \<open>joint_matrix_store_impl::store\<close>

text \<open>
  \<open>src\<close> is the accumulator \<open>joint_matrix\<close> object passed by reference, \<open>dst\<close> the
  memory the \<open>multi_ptr\<close> holds. The shape tests are run-time \<^verbatim>\<open>if\<close>s, the type tests
  \<^verbatim>\<open>if constexpr\<close>; neither chain has a final \<^verbatim>\<open>else\<close>.
\<close>

definition store ::
  "ctype \<Rightarrow> nat \<Rightarrow> nat \<Rightarrow> matrix_layout \<Rightarrow> location \<Rightarrow> location \<Rightarrow> nat \<Rightarrow> ld_st_call list option" where
  "store T NumRows NumCols Layout src dst stride =
    (if Layout = row_major \<or> Layout = col_major then
      (case get_layout_id Layout of
        None \<Rightarrow> None
      | Some layout_id \<Rightarrow> Some (
        if NumRows = 16 \<and> NumCols = 16 then
          (if T = float then
             [ld_st ''__hmma_m16n16k16_st_c_f32'' (as_declared dst) (as_declared src) stride layout_id]
           else if T = int32_t then
             [ld_st ''__imma_m16n16k16_st_c_i32'' (as_declared dst) (as_declared src) stride layout_id]
           else if T = half then
             (let tileptr = reinterpret_cast int32_t dst;
                  srcptr = reinterpret_cast int32_t src in
              [ld_st ''__hmma_m16n16k16_st_c_f16'' tileptr srcptr stride layout_id])
           else [])
        else if NumRows = 8 \<and> NumCols = 32 then
          (if T = float then
             [ld_st ''__hmma_m8n32k16_st_c_f32'' (as_declared dst) (as_declared src) stride layout_id]
           else if T = int32_t then
             [ld_st ''__imma_m8n32k16_st_c_i32'' (as_declared dst) (as_declared src) stride layout_id]
           else if T = half then
             (let tileptr = reinterpret_cast int32_t dst;
                  srcptr = reinterpret_cast int32_t src in
              [ld_st ''__hmma_m8n32k16_st_c_f16'' tileptr srcptr stride layout_id])
           else [])
        else if NumRows = 32 \<and> NumCols = 8 then
          (if T = float then
             [ld_st ''__hmma_m32n8k16_st_c_f32'' (as_declared dst) (as_declared src) stride layout_id]
           else if T = int32_t then
             [ld_st ''__imma_m32n8k16_st_c_i32'' (as_declared dst) (as_declared src) stride layout_id]
           else if T = half then
             (let tileptr = reinterpret_cast int32_t dst;
                  srcptr = reinterpret_cast int32_t src in
              [ld_st ''__hmma_m32n8k16_st_c_f16'' tileptr srcptr stride layout_id])
           else [])
        else if T = double then
          [ld_st ''__dmma_m8n8k4_st_c_f64'' (as_declared dst) (as_declared src) stride layout_id]
        else []))
     else None)"


section \<open>joint_matrix_mad_impl::mad\<close>

text \<open>
  The contents of the objects: a \<open>store\<close> gives each location what it holds (the type
  \<open>'d\<close> of contents is left open: the header never looks inside a fragment).
\<close>

type_synonym 'd store = "location \<Rightarrow> 'd"

text \<open>
  What a multiply-accumulate builtin does is the hardware's business. It is a parameter:
  from the builtin's name, its two integer operands and the contents of the four objects
  its pointer operands designate (\<open>d\<close>, \<open>a\<close>, \<open>b\<close>, \<open>c\<close>), the contents of the four
  objects afterwards. Nothing is assumed of it, not even that it leaves \<open>a\<close>, \<open>b\<close> and
  \<open>c\<close> alone.
\<close>

type_synonym 'd hardware = "string \<Rightarrow> int \<Rightarrow> int \<Rightarrow> 'd \<times> 'd \<times> 'd \<times> 'd \<Rightarrow> 'd \<times> 'd \<times> 'd \<times> 'd"

fun issue :: "'d hardware \<Rightarrow> mma_call \<Rightarrow> 'd store \<Rightarrow> 'd store" where
  "issue hw (mma n d a b c l sf) s =
     (case hw n l sf (s (operand_location d), s (operand_location a),
                      s (operand_location b), s (operand_location c)) of
        (vd, va, vb, vc) \<Rightarrow>
          s(operand_location c := vc, operand_location b := vb,
            operand_location a := va, operand_location d := vd))"

text \<open>
  The body of \<open>mad\<close>, run on the store that holds its parameters \<open>A\<close>, \<open>B\<close>, \<open>C\<close>
  (at \<open>A_data\<close>, \<open>B_data\<close>, \<open>C_data\<close>) and its local \<open>D\<close> (at \<open>D_data\<close>, declared
  without an initialiser: it holds whatever the store has there). The result is the list
  of builtins called and the store afterwards; \<^verbatim>\<open>return D\<close> is the contents of
  \<open>D_data\<close> in it. \<open>None\<close>: only the primary template matches, which declares \<open>mad\<close>
  without a body.
\<close>

definition mad ::
  "'d hardware \<Rightarrow> ctype \<Rightarrow> ctype \<Rightarrow> nat \<Rightarrow> nat \<Rightarrow> nat
     \<Rightarrow> matrix_layout \<Rightarrow> matrix_layout \<Rightarrow> matrix_layout
     \<Rightarrow> 'd store \<Rightarrow> (mma_call list \<times> 'd store) option" where
  "mad hw T1 T2 M K N LayoutA LayoutB LayoutC s =
    (if (LayoutA = row_major \<or> LayoutA = col_major) \<and>
        (LayoutB = row_major \<or> LayoutB = col_major) \<and>
        (LayoutC = row_major \<or> LayoutC = col_major) then
      (case get_layout_pair_id LayoutA LayoutB of
        None \<Rightarrow> None
      | Some layout_pair_id \<Rightarrow>
        (let calls =
          (if M = 16 \<and> N = 16 \<and> K = 16 then
             (if T1 = int8_t then
                [mma ''__imma_m16n16k16_mma_s8'' (as_declared D_data) (as_declared A_data)
                   (as_declared B_data) (as_declared C_data) layout_pair_id 0]
              else if T1 = uint8_t then
                [mma ''__imma_m16n16k16_mma_u8'' (as_declared D_data) (as_declared A_data)
                   (as_declared B_data) (as_declared C_data) layout_pair_id 0]
              else if T1 = half then
                (let ptrA = reinterpret_cast int32_t A_data;
                     ptrB = reinterpret_cast int32_t B_data in
                 if T2 = float then
                   [mma ''__hmma_m16n16k16_mma_f32f32'' (as_declared D_data) ptrA ptrB
                      (as_declared C_data) layout_pair_id 0]
                 else if T2 = half then
                   (let ptrC = reinterpret_cast int32_t C_data;
                        ptrD = reinterpret_cast int32_t D_data in
                    [mma ''__hmma_m16n16k16_mma_f16f16'' ptrD ptrA ptrB ptrC layout_pair_id 0])
                 else [])
              else if T1 = uint16_t \<or> T1 = bfloat16 then
                (let ptrA = reinterpret_cast int32_t A_data;
                     ptrB = reinterpret_cast int32_t B_data in
                 [mma ''__mma_bf16_m16n16k16_mma_f32'' (as_declared D_data) ptrA ptrB
                    (as_declared C_data) layout_pair_id 0])
              else [])
           else if M = 8 \<and> N = 32 \<and> K = 16 then
             (if T1 = int8_t then
                [mma ''__imma_m8n32k16_mma_s8'' (as_declared D_data) (as_declared A_data)
                   (as_declared B_data) (as_declared C_data) layout_pair_id 0]
              else if T1 = uint8_t then
                [mma ''__imma_m8n32k16_mma_u8'' (as_declared D_data) (as_declared A_data)
                   (as_declared B_data) (as_declared C_data) layout_pair_id 0]
              else if T1 = half then
                (let ptrA = reinterpret_cast int32_t A_data;
                     ptrB = reinterpret_cast int32_t B_data in
                 if T2 = float then
                   [mma ''__hmma_m8n32k16_mma_f32f32'' (as_declared D_data) ptrA ptrB
                      (as_declared C_data) layout_pair_id 0]
                 else if T2 = half then
                   (let ptrC = reinterpret_cast int32_t C_data;
                        ptrD = reinterpret_cast int32_t D_data in
                    [mma ''__hmma_m8n32k16_mma_f16f16'' ptrD ptrA ptrB ptrC layout_pair_id 0])
                 else [])
              else if T1 = uint16_t \<or> T1 = bfloat16 then
                (let ptrA = reinterpret_cast int32_t A_data;
                     ptrB = reinterpret_cast int32_t B_data in
                 [mma ''__mma_bf16_m8n32k16_mma_f32'' (as_declared D_data) ptrA ptrB
                    (as_declared C_data) layout_pair_id 0])
              else [])
           else if M = 32 \<and> N = 8 \<and> K = 16 then
             (if T1 = int8_t then
                [mma ''__imma_m32n8k16_mma_s8'' (as_declared D_data) (as_declared A_data)
                   (as_declared B_data) (as_declared C_data) layout_pair_id 0]
              else if T1 = uint8_t then
                [mma ''__imma_m32n8k16_mma_u8'' (as_declared D_data) (as_declared A_data)
                   (as_declared B_data) (as_declared C_data) layout_pair_id 0]
              else if T1 = uint16_t \<or> T1 = bfloat16 then
                (let ptrA = reinterpret_cast int32_t A_data;
                     ptrB = reinterpret_cast int32_t B_data in
                 [mma ''__mma_bf16_m32n8k16_mma_f32'' (as_declared D_data) ptrA ptrB
                    (as_declared C_data) layout_pair_id 0])
              else if T1 = half then
                (let ptrA = reinterpret_cast int32_t A_data;
                     ptrB = reinterpret_cast int32_t B_data in
                 if T2 = float then
                   [mma ''__hmma_m32n8k16_mma_f32f32'' (as_declared D_data) ptrA ptrB
                      (as_declared C_data) layout_pair_id 0]
                 else if T2 = half then
                   (let ptrC = reinterpret_cast int32_t C_data;
                        ptrD = reinterpret_cast int32_t D_data in
                    [mma ''__hmma_m32n8k16_mma_f16f16'' ptrD ptrA ptrB ptrC layout_pair_id 0])
                 else [])
              else [])
           else if T1 = double then
             [mma ''__dmma_m8n8k4_mma_f64'' (as_declared D_data) (as_declared A_data)
                (as_declared B_data) (as_declared C_data) layout_pair_id 0]
           else [])
         in Some (calls, fold (issue hw) calls s)))
     else None)"

section \<open>The entry points of matrix-tensorcore.hpp\<close>

text \<open>
  The two macros the preprocessor guards test, as the compilation has them defined or not.
\<close>

record target =
  SYCL_DEVICE_ONLY :: bool
  NVPTX :: bool

datatype pi_result = PI_INVALID_DEVICE | PI_ERROR_INVALID_DEVICE

text \<open>
  How a call ends when it does not return normally: a thrown \<open>runtime_error\<close> with its
  message and code; a failed \<^verbatim>\<open>assert\<close> with its message; \<open>no_definition\<close>, a call of
  a member function that the matching template declares and never defines.
\<close>

datatype error =
    runtime_error string pi_result
  | assertion_failed string
  | no_definition

definition joint_matrix_load ::
  "target \<Rightarrow> ctype \<Rightarrow> matrix_use \<Rightarrow> nat \<Rightarrow> nat \<Rightarrow> matrix_layout \<Rightarrow> location \<Rightarrow> location \<Rightarrow> nat
     \<Rightarrow> error + ld_st_call list" where
  "joint_matrix_load tgt T Use NumRows NumCols Layout res src stride =
    (if SYCL_DEVICE_ONLY tgt \<and> NVPTX tgt then
       (case load T Use NumRows NumCols Layout res src stride of
          None \<Rightarrow> Inl no_definition
        | Some calls \<Rightarrow> Inr calls)
     else
       Inl (runtime_error
         ''When using SYCL_EXT_ONEAPI_MATRIX=3 joint_matrix_load is only supported by CUDA devices''
         PI_INVALID_DEVICE))"

definition joint_matrix_store ::
  "target \<Rightarrow> ctype \<Rightarrow> nat \<Rightarrow> nat \<Rightarrow> matrix_layout \<Rightarrow> location \<Rightarrow> location \<Rightarrow> nat
     \<Rightarrow> error + ld_st_call list" where
  "joint_matrix_store tgt T NumRows NumCols Layout src dst stride =
    (if SYCL_DEVICE_ONLY tgt \<and> NVPTX tgt then
       (case store T NumRows NumCols Layout src dst stride of
          None \<Rightarrow> Inl no_definition
        | Some calls \<Rightarrow> Inr calls)
     else
       Inl (runtime_error
         ''When using SYCL_EXT_ONEAPI_MATRIX=3 joint_matrix_store is only supported by CUDA devices''
         PI_INVALID_DEVICE))"

text \<open>
  \<open>joint_matrix_mad\<close> takes \<open>A\<close>, \<open>B\<close> and \<open>C\<close> by value: the caller's objects, at the
  addresses \<open>a\<close>, \<open>b\<close> and \<open>c\<close>, are copied into the parameters before the body runs.
  It returns \<open>D\<close>, whose type
  \<^verbatim>\<open>joint_matrix<T2, matrix_use::accumulator, M, N, LayoutC, Group>\<close> is the type of the
  parameter \<open>C\<close>. The result holds the type and the contents of the returned \<open>D\<close>, the
  builtins called, and the store after the call.
\<close>

type_synonym descriptor = "ctype \<times> matrix_use \<times> nat \<times> nat \<times> matrix_layout"

definition mad_type_C :: "ctype \<Rightarrow> nat \<Rightarrow> nat \<Rightarrow> matrix_layout \<Rightarrow> descriptor" where
  "mad_type_C T2 M N LayoutC = (T2, accumulator, M, N, LayoutC)"

record 'd mad_result =
  D_type :: descriptor
  D_contents :: 'd
  calls_issued :: "mma_call list"
  store_after :: "'d store"

definition joint_matrix_mad ::
  "target \<Rightarrow> 'd hardware \<Rightarrow> ctype \<Rightarrow> ctype \<Rightarrow> nat \<Rightarrow> nat \<Rightarrow> nat
     \<Rightarrow> matrix_layout \<Rightarrow> matrix_layout \<Rightarrow> matrix_layout
     \<Rightarrow> nat \<Rightarrow> nat \<Rightarrow> nat \<Rightarrow> 'd store \<Rightarrow> error + 'd mad_result" where
  "joint_matrix_mad tgt hw T1 T2 M K N LayoutA LayoutB LayoutC a b c s =
    (if SYCL_DEVICE_ONLY tgt \<and> NVPTX tgt then
       (let s0 = s(A_data := s (address a), B_data := s (address b), C_data := s (address c)) in
        case mad hw T1 T2 M K N LayoutA LayoutB LayoutC s0 of
          None \<Rightarrow> Inl no_definition
        | Some (calls, s1) \<Rightarrow>
            Inr \<lparr> D_type = (T2, accumulator, M, N, LayoutC), D_contents = s1 D_data,
                  calls_issued = calls, store_after = s1 \<rparr>)
     else
       Inl (runtime_error
         ''When using SYCL_EXT_ONEAPI_MATRIX=3 joint_matrix_mad is only supported by CUDA devices''
         PI_INVALID_DEVICE))"


section \<open>The entry points of matrix-unified.hpp\<close>

text \<open>
  The functions the device branches call (\<open>load_accumulator_cuda\<close>,
  \<open>load_multiplicand_cuda\<close>, \<open>joint_matrix_store_cuda\<close>, \<open>joint_matrix_mad_cuda\<close>) are
  defined in matrix-tensorcores.hpp, which is not among the sources, as is the enumeration
  \<open>layout\<close>. Each is a parameter here: a function of its arguments on the store, of which
  nothing is assumed. The type \<open>'l\<close> stands for \<open>layout\<close>, \<open>'v\<close> for the type of the
  fill value.

  The guards are nested: \<^verbatim>\<open>#if defined(__SYCL_DEVICE_ONLY__)\<close> around
  \<^verbatim>\<open>#if defined(__NVPTX__)\<close>, the latter with no \<^verbatim>\<open>#else\<close>. A device compilation for
  another target leaves the body empty.
\<close>

definition unified_message :: string where
  "unified_message =
     ''This version of the matrix extension is only currently supported on Nvidia devices''"

definition joint_matrix_fill ::
  "target \<Rightarrow> ('v \<Rightarrow> 'd) \<Rightarrow> location \<Rightarrow> 'v \<Rightarrow> 'd store \<Rightarrow> error + 'd store" where
  "joint_matrix_fill tgt marray_assign res v s =
    (if SYCL_DEVICE_ONLY tgt then
       (if NVPTX tgt then Inr (s(res := marray_assign v)) else Inr s)
     else Inl (runtime_error unified_message PI_ERROR_INVALID_DEVICE))"

definition joint_matrix_load_dynamic ::
  "target \<Rightarrow> (location \<Rightarrow> location \<Rightarrow> nat \<Rightarrow> 'l \<Rightarrow> 'd store \<Rightarrow> 'd store)
     \<Rightarrow> location \<Rightarrow> location \<Rightarrow> nat \<Rightarrow> 'l \<Rightarrow> 'd store \<Rightarrow> error + 'd store" where
  "joint_matrix_load_dynamic tgt load_accumulator_cuda res src stride LayoutAcc s =
    (if SYCL_DEVICE_ONLY tgt then
       (if NVPTX tgt then Inr (load_accumulator_cuda res src stride LayoutAcc s) else Inr s)
     else Inl (runtime_error unified_message PI_ERROR_INVALID_DEVICE))"

definition joint_matrix_load_unified ::
  "target \<Rightarrow> (location \<Rightarrow> location \<Rightarrow> nat \<Rightarrow> 'd store \<Rightarrow> 'd store)
     \<Rightarrow> location \<Rightarrow> location \<Rightarrow> nat \<Rightarrow> 'd store \<Rightarrow> error + 'd store" where
  "joint_matrix_load_unified tgt load_multiplicand_cuda res src stride s =
    (if SYCL_DEVICE_ONLY tgt then
       (if NVPTX tgt then Inr (load_multiplicand_cuda res src stride s) else Inr s)
     else Inl (runtime_error unified_message PI_ERROR_INVALID_DEVICE))"

definition joint_matrix_store_unified ::
  "target \<Rightarrow> (location \<Rightarrow> location \<Rightarrow> nat \<Rightarrow> 'l \<Rightarrow> 'd store \<Rightarrow> 'd store)
     \<Rightarrow> location \<Rightarrow> location \<Rightarrow> nat \<Rightarrow> 'l \<Rightarrow> 'd store \<Rightarrow> error + 'd store" where
  "joint_matrix_store_unified tgt joint_matrix_store_cuda src dst stride LayoutAcc s =
    (if SYCL_DEVICE_ONLY tgt then
       (if NVPTX tgt then Inr (joint_matrix_store_cuda src dst stride LayoutAcc s) else Inr s)
     else Inl (runtime_error unified_message PI_ERROR_INVALID_DEVICE))"

text \<open>
  \<open>joint_matrix_mad\<close> of matrix-unified.hpp takes \<open>A\<close>, \<open>B\<close> and \<open>C\<close> by reference (the
  caller's objects, at \<open>a\<close>, \<open>b\<close>, \<open>c\<close>) and has its own element type for each: \<open>Ta\<close>,
  \<open>Tb\<close>, \<open>Tc\<close>. The local \<open>D\<close> is at \<open>D_data\<close>; the result is the contents of the
  returned \<open>D\<close> and the store afterwards.

  The \<^verbatim>\<open>else\<close> branch is \<^verbatim>\<open>assert(false && "...")\<close>. \<open>NDEBUG\<close> tells whether the
  macro of that name is defined: if it is not, the assertion fails with its message; if it
  is, the \<^verbatim>\<open>assert\<close> expands to nothing and the branch is empty. An empty branch, and
  the empty body of a device compilation that is not for NVPTX, reach the end of the
  function with no \<^verbatim>\<open>return\<close> although it has a result type: nothing has been
  written, and what the caller gets as the result has no defined contents. That value is
  the parameter \<open>indeterminate\<close>.
\<close>

definition joint_matrix_mad_unified ::
  "target \<Rightarrow> bool \<Rightarrow> 'd
     \<Rightarrow> (ctype \<Rightarrow> ctype \<Rightarrow> nat \<Rightarrow> nat \<Rightarrow> nat \<Rightarrow> 'l \<Rightarrow> 'l
          \<Rightarrow> location \<Rightarrow> location \<Rightarrow> location \<Rightarrow> location \<Rightarrow> 'd store \<Rightarrow> 'd store)
     \<Rightarrow> ctype \<Rightarrow> ctype \<Rightarrow> ctype \<Rightarrow> nat \<Rightarrow> nat \<Rightarrow> nat \<Rightarrow> 'l \<Rightarrow> 'l
     \<Rightarrow> location \<Rightarrow> location \<Rightarrow> location \<Rightarrow> 'd store \<Rightarrow> error + ('d \<times> 'd store)" where
  "joint_matrix_mad_unified tgt NDEBUG indeterminate joint_matrix_mad_cuda
       Ta Tb Tc M K N LayoutA LayoutB a b c s =
    (if SYCL_DEVICE_ONLY tgt then
       (if NVPTX tgt then
          (if Ta = Tb then
             (let s1 = joint_matrix_mad_cuda Ta Tc M K N LayoutA LayoutB D_data a b c s
              in Inr (s1 D_data, s1))
           else if NDEBUG then Inr (indeterminate, s)
           else
             Inl (assertion_failed
               ''Ta != Tb : In the CUDA backend joint_matrix_mad requires that joint_matrix data types Ta and Tb match''))
        else Inr (indeterminate, s))
     else Inl (runtime_error unified_message PI_ERROR_INVALID_DEVICE))"

subsection \<open>round_to_tf32\<close>

text \<open>
  A \<open>float\<close> is its 32-bit pattern: the host branch reads and writes it through
  \<^verbatim>\<open>reinterpret_cast<uint32_t &>\<close> only. The argument is a reference, so the result is
  the returned value and the referenced \<open>a\<close> after the call. The device branch calls the
  builtin \<open>__nvvm_f2tf32_rna\<close>, a parameter here.
\<close>

definition round_to_tf32 ::
  "target \<Rightarrow> (32 word \<Rightarrow> 32 word) \<Rightarrow> 32 word \<Rightarrow> 32 word \<times> 32 word" where
  "round_to_tf32 tgt nvvm_f2tf32_rna a =
    (if SYCL_DEVICE_ONLY tgt \<and> NVPTX tgt then
       (let tmp_int = nvvm_f2tf32_rna a in (tmp_int, a))
     else
       (let tmp_uint = a;
            tmp_uint = tmp_uint + 0x1000;
            tmp_uint = tmp_uint AND 0xFFFFE000;
            ret = tmp_uint
        in (ret, a)))"

section \<open>The peer-access adapter (usm_p2p.cpp)\<close>

datatype ur_result_t =
  UR_RESULT_SUCCESS | UR_RESULT_ERROR_INVALID_ENUMERATION | UR_RESULT_ERROR nat

datatype hipError_t = hipSuccess | hipError nat

datatype ur_exp_peer_info_t =
    UR_EXP_PEER_INFO_UR_PEER_ACCESS_SUPPORTED
  | UR_EXP_PEER_INFO_UR_PEER_ATOMICS_SUPPORTED
  | peer_info_other nat

datatype hipDeviceP2PAttr = hipDevP2PAttrAccessSupported | hipDevP2PAttrNativeAtomicSupported

text \<open>A device handle: its native context and its device ordinal (\<open>get()\<close>).\<close>

record ur_device =
  getNativeContext :: nat
  get_device :: nat

datatype driver_call =
    hipCtxEnablePeerAccess nat nat
  | hipCtxDisablePeerAccess nat
  | hipDeviceGetP2PAttribute hipDeviceP2PAttr nat nat

text \<open>
  The state the adapter works on: the context that is active on the calling thread, and
  the driver calls made so far, each with the context that was active when it was made.
\<close>

record hip_state =
  active_context :: "nat option"
  driver_log :: "(nat option \<times> driver_call) list"

text \<open>
  The driver is a parameter: from the state and the call, the status it returns and, for
  \<open>hipDeviceGetP2PAttribute\<close>, the value it writes.
\<close>

type_synonym driver = "hip_state \<Rightarrow> driver_call \<Rightarrow> hipError_t \<times> int"

definition call_driver :: "driver \<Rightarrow> driver_call \<Rightarrow> hip_state \<Rightarrow> (hipError_t \<times> int) \<times> hip_state" where
  "call_driver drv c st =
     (drv st c, st\<lparr>driver_log := driver_log st @ [(active_context st, c)]\<rparr>)"

text \<open>
  Modelled from the spec: \<open>ScopedContext\<close> (context.hpp is not among the sources). The
  spec: every call scopes an "active device context" for its duration and restores the
  prior context on exit, even on error paths. The constructor makes the device's context
  the active one and keeps the prior one; the destructor puts the prior one back.
\<close>

definition ScopedContext :: "ur_device \<Rightarrow> hip_state \<Rightarrow> nat option \<times> hip_state" where
  "ScopedContext dev st =
     (active_context st, st\<lparr>active_context := Some (getNativeContext dev)\<rparr>)"

definition ScopedContext_destroy :: "nat option \<Rightarrow> hip_state \<Rightarrow> hip_state" where
  "ScopedContext_destroy prior st = st\<lparr>active_context := prior\<rparr>"

text \<open>
  Modelled from the spec: the macro \<open>UR_CHECK_ERROR\<close> (common.hpp is not among the sources).
  The spec: when the underlying driver call fails the error is propagated as a status
  code. A status other than \<open>hipSuccess\<close> is thrown as a \<open>ur_result_t\<close>, the one the
  adapter's error map (a parameter) gives it.
\<close>

datatype thrown = throw_ur_result ur_result_t | throw_other string

definition UR_CHECK_ERROR :: "(hipError_t \<Rightarrow> ur_result_t) \<Rightarrow> hipError_t \<Rightarrow> thrown + unit" where
  "UR_CHECK_ERROR map_error e =
     (if e = hipSuccess then Inr () else Inl (throw_ur_result (map_error e)))"

text \<open>
  \<^verbatim>\<open>try { ... } catch (ur_result_t err) { handler }\<close>: a thrown \<open>ur_result_t\<close> runs the
  handler, anything else thrown leaves the function.
\<close>

definition catch_ur_result :: "thrown + 'a \<Rightarrow> (ur_result_t \<Rightarrow> thrown + 'a) \<Rightarrow> thrown + 'a" where
  "catch_ur_result body handler =
     (case body of
        Inl (throw_ur_result err) \<Rightarrow> handler err
      | Inl (throw_other x) \<Rightarrow> Inl (throw_other x)
      | Inr v \<Rightarrow> Inr v)"

text \<open>
  Each function: the result (a status, or what left the function as an exception) and
  the state afterwards. \<open>active\<close> is declared inside the \<^verbatim>\<open>try\<close> block, so its
  destructor runs when the block is left, by its end, by a \<^verbatim>\<open>return\<close> or by a throw.
\<close>

definition urUsmP2PEnablePeerAccessExp ::
  "driver \<Rightarrow> (hipError_t \<Rightarrow> ur_result_t) \<Rightarrow> ur_device \<Rightarrow> ur_device \<Rightarrow> hip_state
     \<Rightarrow> (thrown + ur_result_t) \<times> hip_state" where
  "urUsmP2PEnablePeerAccessExp drv map_error commandDevice peerDevice st =
    (let result = UR_RESULT_SUCCESS;
         (active, st1) = ScopedContext commandDevice st;
         (r, st2) = call_driver drv (hipCtxEnablePeerAccess (getNativeContext peerDevice) 0) st1;
         body = UR_CHECK_ERROR map_error (fst r);
         st3 = ScopedContext_destroy active st2
     in (catch_ur_result (case body of Inl t \<Rightarrow> Inl t | Inr u \<Rightarrow> Inr result) (\<lambda>err. Inr err),
         st3))"

definition urUsmP2PDisablePeerAccessExp ::
  "driver \<Rightarrow> (hipError_t \<Rightarrow> ur_result_t) \<Rightarrow> ur_device \<Rightarrow> ur_device \<Rightarrow> hip_state
     \<Rightarrow> (thrown + ur_result_t) \<times> hip_state" where
  "urUsmP2PDisablePeerAccessExp drv map_error commandDevice peerDevice st =
    (let result = UR_RESULT_SUCCESS;
         (active, st1) = ScopedContext commandDevice st;
         (r, st2) = call_driver drv (hipCtxDisablePeerAccess (getNativeContext peerDevice)) st1;
         body = UR_CHECK_ERROR map_error (fst r);
         st3 = ScopedContext_destroy active st2
     in (catch_ur_result (case body of Inl t \<Rightarrow> Inl t | Inr u \<Rightarrow> Inr result) (\<lambda>err. Inr err),
         st3))"

text \<open>
  \<open>ReturnValue\<close> is the \<open>UrReturnHelper\<close> object (not among the sources): a parameter
  that gives the status returned for the value handed to it.
\<close>

definition urUsmP2PPeerAccessGetInfoExp ::
  "driver \<Rightarrow> (hipError_t \<Rightarrow> ur_result_t) \<Rightarrow> (int \<Rightarrow> ur_result_t)
     \<Rightarrow> ur_device \<Rightarrow> ur_device \<Rightarrow> ur_exp_peer_info_t \<Rightarrow> hip_state
     \<Rightarrow> (thrown + ur_result_t) \<times> hip_state" where
  "urUsmP2PPeerAccessGetInfoExp drv map_error ReturnValue commandDevice peerDevice propName st =
    (let (active, st1) = ScopedContext commandDevice st in
     case (case propName of
             UR_EXP_PEER_INFO_UR_PEER_ACCESS_SUPPORTED \<Rightarrow> Some hipDevP2PAttrAccessSupported
           | UR_EXP_PEER_INFO_UR_PEER_ATOMICS_SUPPORTED \<Rightarrow> Some hipDevP2PAttrNativeAtomicSupported
           | peer_info_other n \<Rightarrow> None) of
       None \<Rightarrow> (Inr UR_RESULT_ERROR_INVALID_ENUMERATION, ScopedContext_destroy active st1)
     | Some hip_attr \<Rightarrow>
        (let (r, st2) = call_driver drv
                (hipDeviceGetP2PAttribute hip_attr (get_device commandDevice) (get_device peerDevice))
                st1;
             value = snd r;
             body = UR_CHECK_ERROR map_error (fst r);
             st3 = ScopedContext_destroy active st2
         in (catch_ur_result (case body of Inl t \<Rightarrow> Inl t | Inr u \<Rightarrow> Inr (ReturnValue value))
               (\<lambda>err. Inr err),
             st3)))"


section \<open>The fragment table\<close>

lemmas table_defs =
  joint_matrix_table_def SYCL_JOINT_MATRIX_OVERLOAD_ARR_def SYCL_JOINT_MATRIX_OVERLOAD_def

lemma joint_matrix_cases:
  assumes "joint_matrix T Use Rows Cols Layout = Some st"
  shows "((T, Use, Rows, Cols), st) \<in> set joint_matrix_table \<and>
         (Layout = row_major \<or> Layout = col_major)"
  using assms by (auto simp: joint_matrix_def dest: map_of_SomeD split: if_splits)

lemma joint_matrix_layout:
  "joint_matrix T Use Rows Cols Layout = Some st \<Longrightarrow> Layout = row_major \<or> Layout = col_major"
  by (simp add: joint_matrix_def split: if_splits)

text \<open>The shapes and types of the three uses, read off the table.\<close>

lemma operand_a_cases:
  "joint_matrix T use_a M K L = Some st \<Longrightarrow>
     (T = bfloat16 \<or> T = half \<or> T = uint16_t \<or> T = int8_t \<or> T = uint8_t) \<and> K = 16 \<and>
        (M = 16 \<or> M = 8 \<or> M = 32)
      \<or> T = double \<and> M = 8 \<and> K = 4"
  apply (drule joint_matrix_cases)
  apply (simp only: table_defs list.set insert_iff empty_iff prod.inject)
  apply (elim conjE disjE)
  apply simp_all
  done

lemma operand_b_cases:
  "joint_matrix T use_b K N L = Some st \<Longrightarrow>
     (T = bfloat16 \<or> T = half \<or> T = uint16_t \<or> T = int8_t \<or> T = uint8_t) \<and> K = 16 \<and>
        (N = 16 \<or> N = 32 \<or> N = 8)
      \<or> T = double \<and> K = 4 \<and> N = 8"
  apply (drule joint_matrix_cases)
  apply (simp only: table_defs list.set insert_iff empty_iff prod.inject)
  apply (elim conjE disjE)
  apply simp_all
  done

lemma operand_c_cases:
  "joint_matrix T accumulator M N L = Some st \<Longrightarrow>
     (T = half \<or> T = float \<or> T = int32_t) \<and>
        (M = 16 \<and> N = 16 \<or> M = 8 \<and> N = 32 \<or> M = 32 \<and> N = 8)
      \<or> T = double \<and> M = 8 \<and> N = 8"
  apply (drule joint_matrix_cases)
  apply (simp only: table_defs list.set insert_iff empty_iff prod.inject)
  apply (elim conjE disjE)
  apply simp_all
  done

lemma mad_operand_cases:
  assumes "joint_matrix T1 use_a M K LA = Some sa" and "joint_matrix T1 use_b K N LB = Some sb"
    and "joint_matrix T2 accumulator M N LC = Some sc"
  shows "(T1 = bfloat16 \<or> T1 = half \<or> T1 = uint16_t \<or> T1 = int8_t \<or> T1 = uint8_t) \<and>
         (T2 = half \<or> T2 = float \<or> T2 = int32_t) \<and> K = 16 \<and>
         (M = 16 \<and> N = 16 \<or> M = 8 \<and> N = 32 \<or> M = 32 \<and> N = 8)
         \<or> (T1 = bfloat16 \<or> T1 = half \<or> T1 = uint16_t \<or> T1 = int8_t \<or> T1 = uint8_t) \<and>
           T2 = double \<and> M = 8 \<and> K = 16 \<and> N = 8
         \<or> T1 = double \<and> T2 = double \<and> M = 8 \<and> K = 4 \<and> N = 8"
proof -
  have ab: "(T1 = bfloat16 \<or> T1 = half \<or> T1 = uint16_t \<or> T1 = int8_t \<or> T1 = uint8_t) \<and>
        K = 16 \<and> (M = 16 \<or> M = 8 \<or> M = 32) \<and> (N = 16 \<or> N = 32 \<or> N = 8)
      \<or> T1 = double \<and> M = 8 \<and> K = 4 \<and> N = 8"
    using operand_a_cases [OF assms(1)] operand_b_cases [OF assms(2)]
    by (elim disjE conjE; simp)
  show ?thesis
    using ab operand_c_cases [OF assms(3)]
    by (elim disjE conjE; simp)
qed

section \<open>Which builtin each operation calls\<close>

text \<open>A fragment type of the table always has a load builtin.\<close>

lemma load_selects:
  "joint_matrix T Use Rows Cols Layout = Some st \<Longrightarrow>
   \<exists>c. load T Use Rows Cols Layout res src stride = Some [c]"
  apply (drule joint_matrix_cases)
  apply (simp only: table_defs list.set insert_iff empty_iff prod.inject)
  apply (elim conjE disjE)
  apply (simp_all add: load_def)
  done

text \<open>An accumulator type of the table always has a store builtin.\<close>

lemma store_selects:
  "joint_matrix T accumulator Rows Cols Layout = Some st \<Longrightarrow>
   \<exists>c. store T Rows Cols Layout src dst stride = Some [c]"
  apply (drule joint_matrix_cases)
  apply (simp only: table_defs list.set insert_iff empty_iff prod.inject)
  apply (elim conjE disjE)
  apply (simp_all add: store_def)
  done

text \<open>
  Three fragment types of the table that fit together have a multiply-accumulate builtin,
  unless \<open>half\<close> operands meet an \<open>int32_t\<close> accumulator, or operands that are not
  \<open>double\<close> meet the \<open>double\<close> accumulator (an 8 by 16 \<open>A\<close> and a 16 by 8 \<open>B\<close>).
\<close>

lemma mad_selects:
  assumes "joint_matrix T1 use_a M K LA = Some sa" and "joint_matrix T1 use_b K N LB = Some sb"
    and "joint_matrix T2 accumulator M N LC = Some sc"
    and "T1 = half \<longrightarrow> T2 = half \<or> T2 = float" and "T2 = double \<longrightarrow> T1 = double"
  shows "\<exists>c. mad hw T1 T2 M K N LA LB LC s = Some ([c], issue hw c s)"
  using mad_operand_cases [OF assms(1-3)] joint_matrix_layout [OF assms(1)]
    joint_matrix_layout [OF assms(2)] joint_matrix_layout [OF assms(3)] assms(4,5)
  by (elim disjE conjE; simp add: mad_def)

text \<open>The operands of the builtin: the caller's stride, and the caller's two objects.\<close>

lemma load_operands:
  "load T Use Rows Cols Layout res src stride = Some calls \<Longrightarrow> c \<in> set calls \<Longrightarrow>
   ld_st_stride c = stride \<and> operand_location (ld_st_dst c) = res \<and>
   operand_location (ld_st_src c) = src"
  by (auto simp: load_def Let_def split: if_splits option.splits)

lemma load_16bit_operands:
  "T = uint16_t \<or> T = bfloat16 \<or> T = half \<Longrightarrow>
   load T Use Rows Cols Layout res src stride = Some calls \<Longrightarrow> c \<in> set calls \<Longrightarrow>
   ld_st_dst c = reinterpret_cast int32_t res \<and> ld_st_src c = reinterpret_cast int32_t src"
  by (elim disjE; auto simp: load_def Let_def split: if_splits option.splits)

lemma store_operands:
  "store T Rows Cols Layout src dst stride = Some calls \<Longrightarrow> c \<in> set calls \<Longrightarrow>
   ld_st_stride c = stride \<and> operand_location (ld_st_dst c) = dst \<and>
   operand_location (ld_st_src c) = src"
  by (auto simp: store_def Let_def split: if_splits option.splits)

lemma store_half_operands:
  "store half Rows Cols Layout src dst stride = Some calls \<Longrightarrow> c \<in> set calls \<Longrightarrow>
   ld_st_dst c = reinterpret_cast int32_t dst \<and> ld_st_src c = reinterpret_cast int32_t src"
  by (auto simp: store_def Let_def split: if_splits option.splits)

text \<open>A normal return of an entry point is a run of the body on a CUDA device.\<close>

lemma joint_matrix_load_Inr:
  "joint_matrix_load tgt T Use Rows Cols Layout res src stride = Inr calls \<Longrightarrow>
   load T Use Rows Cols Layout res src stride = Some calls"
  by (simp add: joint_matrix_load_def split: if_splits option.splits)

lemma joint_matrix_store_Inr:
  "joint_matrix_store tgt T Rows Cols Layout src dst stride = Inr calls \<Longrightarrow>
   store T Rows Cols Layout src dst stride = Some calls"
  by (simp add: joint_matrix_store_def split: if_splits option.splits)

text \<open>
  A builtin called by \<open>mad\<close> is handed the four objects of the body and nothing else,
  so the rest of the store is as before.
\<close>

lemma issue_frame:
  "l \<notin> operand_location ` set (mma_operands c) \<Longrightarrow> issue hw c s l = s l"
  by (cases c) (simp split: prod.splits)

lemma fold_issue_frame:
  "(\<And>c. c \<in> set calls \<Longrightarrow> l \<notin> operand_location ` set (mma_operands c)) \<Longrightarrow>
   fold (issue hw) calls s l = s l"
  by (induction calls arbitrary: s) (simp_all add: issue_frame)

lemma mad_layouts:
  "mad hw T1 T2 M K N LayoutA LayoutB LayoutC s = Some x \<Longrightarrow>
   (LayoutA = row_major \<or> LayoutA = col_major) \<and> (LayoutB = row_major \<or> LayoutB = col_major) \<and>
   (LayoutC = row_major \<or> LayoutC = col_major)"
  unfolding mad_def by (rule ccontr) simp

lemma mad_operands_local:
  "LayoutA = row_major \<or> LayoutA = col_major \<Longrightarrow>
   LayoutB = row_major \<or> LayoutB = col_major \<Longrightarrow>
   LayoutC = row_major \<or> LayoutC = col_major \<Longrightarrow>
   \<exists>calls. mad hw T1 T2 M K N LayoutA LayoutB LayoutC s = Some (calls, fold (issue hw) calls s) \<and>
     (\<forall>c \<in> set calls. operand_location ` set (mma_operands c) = {D_data, A_data, B_data, C_data})"
  by (elim disjE; simp add: mad_def Let_def insert_commute)

lemma mad_calls_local:
  assumes "mad hw T1 T2 M K N LayoutA LayoutB LayoutC s = Some (calls, s')"
  shows "s' = fold (issue hw) calls s \<and>
   (\<forall>c \<in> set calls. operand_location ` set (mma_operands c) = {D_data, A_data, B_data, C_data})"
proof -
  from mad_layouts [OF assms] mad_operands_local [of LayoutA LayoutB LayoutC hw T1 T2 M K N s]
  obtain calls' where
    "mad hw T1 T2 M K N LayoutA LayoutB LayoutC s = Some (calls', fold (issue hw) calls' s)"
    "\<forall>c \<in> set calls'. operand_location ` set (mma_operands c) = {D_data, A_data, B_data, C_data}"
    by blast
  with assms show ?thesis by auto
qed

lemma mad_frame:
  assumes "mad hw T1 T2 M K N LayoutA LayoutB LayoutC s = Some (calls, s')"
  shows "s' (address n) = s (address n)"
proof -
  from mad_calls_local [OF assms]
  have s': "s' = fold (issue hw) calls s"
    and loc: "\<And>c. c \<in> set calls \<Longrightarrow> address n \<notin> operand_location ` set (mma_operands c)"
    by auto
  show ?thesis unfolding s' by (rule fold_issue_frame) (rule loc)
qed

text \<open>Clearing the low 13 bits of a 32-bit word rounds it down to a multiple of 8192.\<close>

lemma mask_as_shift: "(x :: 32 word) AND 0xFFFFE000 = push_bit 13 (drop_bit 13 x)"
proof -
  have "(0xFFFFE000 :: 32 word) = NOT (mask 13)" by (simp add: mask_eq_exp_minus_1)
  then show ?thesis
    by (simp add: bit_eq_iff bit_and_iff bit_not_iff bit_mask_iff bit_push_bit_iff bit_drop_bit_eq)
       (auto simp: bit_imp_le_length dest: bit_imp_le_length)
qed

lemma unat_mask: "unat ((x :: 32 word) AND 0xFFFFE000) = unat x div 8192 * 8192"
proof -
  have b: "unat x < 2 ^ 32" using unsigned_less [of x] by simp
  have "unat x div 8192 * 8192 \<le> unat x" by simp
  with b have c: "unat x div 8192 * 8192 < 4294967296" by simp
  show ?thesis
    using c by (simp add: mask_as_shift push_bit_eq_mult drop_bit_eq_div unat_word_ariths unat_div)
qed

lemmas p2p_defs =
  ScopedContext_def ScopedContext_destroy_def call_driver_def UR_CHECK_ERROR_def
  catch_ur_result_def

section \<open>Layout identifiers\<close>

text \<open>
  C2. The layout identifiers are \<open>row_major = 0\<close> and \<open>col_major = 1\<close>, and the identifier
  of a pair of layouts is \<open>2 * id A + id B\<close>: \<open>(row, row) = 0\<close>, \<open>(row, col) = 1\<close>,
  \<open>(col, row) = 2\<close>, \<open>(col, col) = 3\<close>. A pair has an identifier exactly when both of
  its layouts have one.
\<close>

theorem layout_pair_id_canonical:
  "get_layout_id row_major = Some 0 \<and> get_layout_id col_major = Some 1 \<and>
   get_layout_pair_id row_major row_major = Some 0 \<and>
   get_layout_pair_id row_major col_major = Some 1 \<and>
   get_layout_pair_id col_major row_major = Some 2 \<and>
   get_layout_pair_id col_major col_major = Some 3 \<and>
   get_layout_pair_id A B =
     (case (get_layout_id A, get_layout_id B) of
        (Some ia, Some ib) \<Rightarrow> Some (2 * ia + ib)
      | _ \<Rightarrow> None)"
  by (cases A; cases B) simp_all

section \<open>Accumulator fragments\<close>

text \<open>
  C8. Every accumulator fragment of the table stores its elements in the element type
  itself: the storage type of \<open>joint_matrix T accumulator\<close> is \<open>T\<close>, and \<open>T\<close> is one of
  \<open>half\<close>, \<open>float\<close>, \<open>int32_t\<close> and \<open>double\<close>.
\<close>

theorem accumulator_storage_is_logical_type:
  assumes "joint_matrix T accumulator Rows Cols Layout = Some st"
  shows "storage_type st = T \<and> (T = half \<or> T = float \<or> T = int32_t \<or> T = double)"
  using joint_matrix_cases [OF assms]
  apply (simp only: table_defs list.set insert_iff empty_iff prod.inject)
  apply (elim conjE disjE)
  apply simp_all
  done

theorem accumulator_storage_is_logical_type_witness:
  "joint_matrix half accumulator 16 16 row_major = Some (marray half 8) \<and>
   storage_type (marray half 8) = half \<and>
   joint_matrix int32_t accumulator 8 32 col_major = Some (c_array int32_t 8) \<and>
   storage_type (c_array int32_t 8) = int32_t"
proof -
  have h: "joint_matrix half accumulator 16 16 row_major = Some (marray half 8)"
    by (simp add: joint_matrix_def table_defs)
  have i: "joint_matrix int32_t accumulator 8 32 col_major = Some (c_array int32_t 8)"
    by (simp add: joint_matrix_def table_defs)
  show ?thesis
    using h i accumulator_storage_is_logical_type [OF h] accumulator_storage_is_logical_type [OF i]
    by simp
qed


section \<open>Combinations without a hardware instruction\<close>

text \<open>
  C1 (as amended). \<open>joint_matrix_load\<close> and \<open>joint_matrix_store\<close> raise no
  unsupported-configuration error of their own; a combination without an instruction is
  kept away from them by the fragment table. Whenever the chain of \<open>load\<close> matches no
  branch for a type, use, shape and layout, no \<open>joint_matrix\<close> type is defined for them,
  so no fragment of that combination can be declared and handed over; the same holds for
  \<open>store\<close> and the accumulator types. The other way round, on a CUDA device
  \<open>joint_matrix_load\<close> calls exactly one builtin for every defined fragment type and
  \<open>joint_matrix_store\<close> exactly one for every defined accumulator type.
  \<open>joint_matrix_mad\<close> calls exactly one builtin for three defined fragment types \<open>A\<close>
  (M by K), \<open>B\<close> (K by N), \<open>C\<close> (M by N) whose accumulator type is the one the builtin
  of the operand type is named for: \<open>int32_t\<close> for \<open>int8_t\<close> and \<open>uint8_t\<close> (\<open>imma\<close>),
  \<open>float\<close> or \<open>half\<close> for \<open>half\<close> (\<open>mma_f32f32\<close>, \<open>mma_f16f16\<close>), \<open>float\<close> for
  \<open>uint16_t\<close> and \<open>bfloat16\<close> (\<open>mma_f32\<close>), \<open>double\<close> for \<open>double\<close> (\<open>mma_f64\<close>).
  Nothing is said of the other pairs of types.
\<close>

theorem unsupported_excluded_by_fragment_table:
  assumes "SYCL_DEVICE_ONLY tgt" and "NVPTX tgt"
  shows
    "(joint_matrix T Use Rows Cols Layout = Some st \<longrightarrow>
        (\<exists>c. joint_matrix_load tgt T Use Rows Cols Layout res src stride = Inr [c])) \<and>
     (joint_matrix T accumulator Rows Cols Layout = Some st \<longrightarrow>
        (\<exists>c. joint_matrix_store tgt T Rows Cols Layout res src stride = Inr [c])) \<and>
     (load T Use Rows Cols Layout res src stride = Some [] \<longrightarrow>
        joint_matrix T Use Rows Cols Layout = None) \<and>
     (store T Rows Cols Layout res src stride = Some [] \<longrightarrow>
        joint_matrix T accumulator Rows Cols Layout = None) \<and>
     (joint_matrix T1 use_a M K LayoutA = Some sa \<and> joint_matrix T1 use_b K N LayoutB = Some sb \<and>
      joint_matrix T2 accumulator M N LayoutC = Some sc \<and>
      ((T1 = int8_t \<or> T1 = uint8_t) \<and> T2 = int32_t \<or>
       T1 = half \<and> (T2 = half \<or> T2 = float) \<or>
       (T1 = uint16_t \<or> T1 = bfloat16) \<and> T2 = float \<or>
       T1 = double \<and> T2 = double) \<longrightarrow>
        (\<exists>c r. joint_matrix_mad tgt hw T1 T2 M K N LayoutA LayoutB LayoutC a b c' s = Inr r \<and>
               calls_issued r = [c]))"
proof (intro conjI impI)
  assume "joint_matrix T Use Rows Cols Layout = Some st"
  then obtain c where "load T Use Rows Cols Layout res src stride = Some [c]"
    using load_selects by blast
  then show "\<exists>c. joint_matrix_load tgt T Use Rows Cols Layout res src stride = Inr [c]"
    using assms by (simp add: joint_matrix_load_def)
next
  assume "joint_matrix T accumulator Rows Cols Layout = Some st"
  then obtain c where "store T Rows Cols Layout res src stride = Some [c]"
    using store_selects by blast
  then show "\<exists>c. joint_matrix_store tgt T Rows Cols Layout res src stride = Inr [c]"
    using assms by (simp add: joint_matrix_store_def)
next
  assume empty: "load T Use Rows Cols Layout res src stride = Some []"
  show "joint_matrix T Use Rows Cols Layout = None"
  proof (cases "joint_matrix T Use Rows Cols Layout")
    case None
    then show ?thesis .
  next
    case (Some st')
    from load_selects [OF this, of res src stride] empty show ?thesis by simp
  qed
next
  assume empty: "store T Rows Cols Layout res src stride = Some []"
  show "joint_matrix T accumulator Rows Cols Layout = None"
  proof (cases "joint_matrix T accumulator Rows Cols Layout")
    case None
    then show ?thesis .
  next
    case (Some st')
    from store_selects [OF this, of res src stride] empty show ?thesis by simp
  qed
next
  assume h: "joint_matrix T1 use_a M K LayoutA = Some sa \<and> joint_matrix T1 use_b K N LayoutB = Some sb \<and>
      joint_matrix T2 accumulator M N LayoutC = Some sc \<and>
      ((T1 = int8_t \<or> T1 = uint8_t) \<and> T2 = int32_t \<or>
       T1 = half \<and> (T2 = half \<or> T2 = float) \<or>
       (T1 = uint16_t \<or> T1 = bfloat16) \<and> T2 = float \<or>
       T1 = double \<and> T2 = double)"
  then have p: "T1 = half \<longrightarrow> T2 = half \<or> T2 = float" and q: "T2 = double \<longrightarrow> T1 = double"
    by auto
  from h have ta: "joint_matrix T1 use_a M K LayoutA = Some sa"
    and tb: "joint_matrix T1 use_b K N LayoutB = Some sb"
    and tc: "joint_matrix T2 accumulator M N LayoutC = Some sc"
    by simp_all
  from mad_selects [OF ta tb tc p q] obtain c where
    "mad hw T1 T2 M K N LayoutA LayoutB LayoutC
       (s(A_data := s (address a), B_data := s (address b), C_data := s (address c'))) =
     Some ([c], issue hw c (s(A_data := s (address a), B_data := s (address b), C_data := s (address c'))))"
    by blast
  then show "\<exists>c r. joint_matrix_mad tgt hw T1 T2 M K N LayoutA LayoutB LayoutC a b c' s = Inr r \<and>
               calls_issued r = [c]"
    using assms by (simp add: joint_matrix_mad_def)
qed

theorem unsupported_excluded_by_fragment_table_witness:
  "joint_matrix half accumulator 16 16 row_major = Some (marray half 8) \<and>
   joint_matrix half use_a 16 16 row_major = Some (marray half 16) \<and>
   joint_matrix half use_b 16 16 col_major = Some (marray half 16) \<and>
   joint_matrix float accumulator 16 16 row_major = Some (c_array float 8) \<and>
   (\<exists>c. joint_matrix_load \<lparr>SYCL_DEVICE_ONLY = True, NVPTX = True\<rparr>
          half accumulator 16 16 row_major (address 0) (address 1) 16 = Inr [c]) \<and>
   (\<exists>c. joint_matrix_store \<lparr>SYCL_DEVICE_ONLY = True, NVPTX = True\<rparr>
          half 16 16 row_major (address 0) (address 1) 16 = Inr [c]) \<and>
   (\<exists>c r. joint_matrix_mad \<lparr>SYCL_DEVICE_ONLY = True, NVPTX = True\<rparr>
            (\<lambda>n l sf x. x) half float 16 16 16 row_major col_major row_major 0 1 2
            (\<lambda>l. 0::nat) = Inr r \<and> calls_issued r = [c]) \<and>
   load float use_a 8 16 row_major (address 0) (address 1) 16 = Some [] \<and>
   joint_matrix float use_a 8 16 row_major = None \<and>
   store float 8 16 row_major (address 0) (address 1) 16 = Some [] \<and>
   joint_matrix float accumulator 8 16 row_major = None"
  using unsupported_excluded_by_fragment_table
    [where tgt = "\<lparr>SYCL_DEVICE_ONLY = True, NVPTX = True\<rparr>"
       and T = half and Use = accumulator and Rows = 16 and Cols = 16 and Layout = row_major
       and st = "marray half 8" and res = "address 0" and src = "address 1" and stride = 16
       and ?T1.0 = half and ?T2.0 = float and M = 16 and K = 16 and N = 16
       and LayoutA = row_major and LayoutB = col_major and LayoutC = row_major
       and sa = "marray half 16" and sb = "marray half 16" and sc = "c_array float 8"
       and hw = "\<lambda>n l sf x. x" and a = 0 and b = 1 and c' = 2 and s = "\<lambda>l. 0::nat"]
    unsupported_excluded_by_fragment_table
    [where tgt = "\<lparr>SYCL_DEVICE_ONLY = True, NVPTX = True\<rparr>"
       and T = float and Use = use_a and Rows = 8 and Cols = 16 and Layout = row_major
       and res = "address 0" and src = "address 1" and stride = 16]
  by (simp add: joint_matrix_def table_defs load_def store_def)

text \<open>
  C1 as stated fails: \<open>half\<close> operands with an \<open>int32_t\<close> accumulator, 16 by 16 by 16.
  The three fragment types are defined, no branch of \<open>mad\<close> matches, and
  \<open>joint_matrix_mad\<close> returns \<open>D\<close> as it was declared (here holding 7; any builtin would
  have stored 1), with no builtin called and no error.
\<close>

theorem mad_half_int32_calls_nothing:
  "joint_matrix half use_a 16 16 row_major = Some (marray half 16) \<and>
   joint_matrix half use_b 16 16 row_major = Some (marray half 16) \<and>
   joint_matrix int32_t accumulator 16 16 row_major = Some (c_array int32_t 8) \<and>
   (case joint_matrix_mad \<lparr>SYCL_DEVICE_ONLY = True, NVPTX = True\<rparr>
           (\<lambda>n l sf (d, a, b, c). (1, a, b, c))
           half int32_t 16 16 16 row_major row_major row_major 0 1 2
           ((\<lambda>l. 0)(D_data := 7)) of
      Inl e \<Rightarrow> False
    | Inr r \<Rightarrow> calls_issued r = [] \<and> D_contents r = (7::nat) \<and>
              D_type r = (int32_t, accumulator, 16, 16, row_major))"
  by (simp add: joint_matrix_def table_defs joint_matrix_mad_def mad_def)


section \<open>Repacked 16-bit fragments\<close>

text \<open>
  C3. The 16-bit type stored in 32-bit words is \<open>uint16_t\<close> (the bf16 data format): its
  fragments are arrays of \<open>int32_t\<close>. The unpacked fragment of the same use and shape is
  the \<open>bfloat16\<close> one, an \<open>marray\<close> of \<open>bfloat16\<close>. For every use, shape and layout
  the \<open>uint16_t\<close> fragment exists exactly when the \<open>bfloat16\<close> one does, and its number
  of \<open>int32_t\<close> slots is the number of \<open>bfloat16\<close> elements divided by two, rounded
  up. Loading a fragment of either type calls one builtin on the caller's two objects
  themselves, both read through \<^verbatim>\<open>reinterpret_cast<int32_t *>\<close>: nothing is converted
  element by element. Neither type has an accumulator, so neither is ever stored; the
  16-bit accumulators are the \<open>half\<close> ones, and storing one passes both objects through
  the same cast.
\<close>

theorem repacked_slot_count:
  "joint_matrix uint16_t Use Rows Cols Layout =
     map_option (\<lambda>st. c_array int32_t ((storage_size st + 1) div 2))
       (joint_matrix bfloat16 Use Rows Cols Layout) \<and>
   (joint_matrix bfloat16 Use Rows Cols Layout = Some st \<longrightarrow>
      st = marray bfloat16 (storage_size st)) \<and>
   ((T = uint16_t \<or> T = bfloat16) \<and> joint_matrix T Use Rows Cols Layout = Some st' \<longrightarrow>
      (\<exists>c. joint_matrix_load \<lparr>SYCL_DEVICE_ONLY = True, NVPTX = True\<rparr>
              T Use Rows Cols Layout res src stride = Inr [c] \<and>
           ld_st_dst c = reinterpret_cast int32_t res \<and>
           ld_st_src c = reinterpret_cast int32_t src)) \<and>
   joint_matrix uint16_t accumulator Rows Cols Layout = None \<and>
   joint_matrix bfloat16 accumulator Rows Cols Layout = None \<and>
   (joint_matrix half accumulator Rows Cols Layout = Some st'' \<longrightarrow>
      (\<exists>c. joint_matrix_store \<lparr>SYCL_DEVICE_ONLY = True, NVPTX = True\<rparr>
              half Rows Cols Layout res src stride = Inr [c] \<and>
           ld_st_dst c = reinterpret_cast int32_t src \<and>
           ld_st_src c = reinterpret_cast int32_t res))"
proof (intro conjI impI)
  show "joint_matrix uint16_t Use Rows Cols Layout =
     map_option (\<lambda>st. c_array int32_t ((storage_size st + 1) div 2))
       (joint_matrix bfloat16 Use Rows Cols Layout)"
    by (simp add: joint_matrix_def table_defs)
next
  assume "joint_matrix bfloat16 Use Rows Cols Layout = Some st"
  from joint_matrix_cases [OF this] show "st = marray bfloat16 (storage_size st)"
    apply (simp only: table_defs list.set insert_iff empty_iff prod.inject)
    apply (elim conjE disjE)
    apply simp_all
    done
next
  assume h: "(T = uint16_t \<or> T = bfloat16) \<and> joint_matrix T Use Rows Cols Layout = Some st'"
  then obtain c where c: "load T Use Rows Cols Layout res src stride = Some [c]"
    using load_selects by blast
  from h have "T = uint16_t \<or> T = bfloat16 \<or> T = half" by blast
  from load_16bit_operands [OF this c, of c]
  have "ld_st_dst c = reinterpret_cast int32_t res \<and> ld_st_src c = reinterpret_cast int32_t src"
    by simp
  with c show "\<exists>c. joint_matrix_load \<lparr>SYCL_DEVICE_ONLY = True, NVPTX = True\<rparr>
              T Use Rows Cols Layout res src stride = Inr [c] \<and>
           ld_st_dst c = reinterpret_cast int32_t res \<and>
           ld_st_src c = reinterpret_cast int32_t src"
    by (simp add: joint_matrix_load_def)
next
  show "joint_matrix uint16_t accumulator Rows Cols Layout = None"
    by (simp add: joint_matrix_def table_defs)
next
  show "joint_matrix bfloat16 accumulator Rows Cols Layout = None"
    by (simp add: joint_matrix_def table_defs)
next
  assume "joint_matrix half accumulator Rows Cols Layout = Some st''"
  then obtain c where c: "store half Rows Cols Layout res src stride = Some [c]"
    using store_selects by blast
  from store_half_operands [OF c, of c]
  have "ld_st_dst c = reinterpret_cast int32_t src \<and> ld_st_src c = reinterpret_cast int32_t res"
    by simp
  with c show "\<exists>c. joint_matrix_store \<lparr>SYCL_DEVICE_ONLY = True, NVPTX = True\<rparr>
              half Rows Cols Layout res src stride = Inr [c] \<and>
           ld_st_dst c = reinterpret_cast int32_t src \<and>
           ld_st_src c = reinterpret_cast int32_t res"
    by (simp add: joint_matrix_store_def)
qed

theorem repacked_slot_count_witness:
  "joint_matrix uint16_t use_a 16 16 row_major = Some (c_array int32_t 4) \<and>
   joint_matrix bfloat16 use_a 16 16 row_major = Some (marray bfloat16 8) \<and>
   (4::nat) = (8 + 1) div 2 \<and>
   (\<exists>c. joint_matrix_load \<lparr>SYCL_DEVICE_ONLY = True, NVPTX = True\<rparr>
           uint16_t use_a 16 16 row_major (address 0) (address 64) 16 = Inr [c] \<and>
        ld_st_dst c = reinterpret_cast int32_t (address 0) \<and>
        ld_st_src c = reinterpret_cast int32_t (address 64)) \<and>
   joint_matrix half accumulator 32 8 row_major = Some (marray half 8) \<and>
   (\<exists>c. joint_matrix_store \<lparr>SYCL_DEVICE_ONLY = True, NVPTX = True\<rparr>
           half 32 8 row_major (address 0) (address 64) 8 = Inr [c] \<and>
        ld_st_dst c = reinterpret_cast int32_t (address 64) \<and>
        ld_st_src c = reinterpret_cast int32_t (address 0))"
  using repacked_slot_count
    [where Use = use_a and Rows = 16 and Cols = 16 and Layout = row_major
       and st = "marray bfloat16 8" and T = uint16_t and st' = "c_array int32_t 4"
       and res = "address 0" and src = "address 64" and stride = 16]
    repacked_slot_count
    [where Rows = 32 and Cols = 8 and Layout = row_major and st'' = "marray half 8"
       and res = "address 0" and src = "address 64" and stride = 8]
  by (simp add: joint_matrix_def table_defs)

section \<open>The stride and the pointers of a load or a store\<close>

text \<open>
  C6 (as amended). Whatever the element type, the builtin a load or a store calls gets the
  caller's stride as it is: the header never divides it, for a repacked type or any other.
  Its two pointer operands designate the caller's two objects. For the 16-bit types
  (\<open>uint16_t\<close>, \<open>bfloat16\<close>, \<open>half\<close>) both pointers go through
  \<^verbatim>\<open>reinterpret_cast<int32_t *>\<close>: the pointer is reinterpreted, nothing is converted.
\<close>

theorem stride_forwarded_pointers_reinterpreted:
  "(joint_matrix_load tgt T Use Rows Cols Layout res src stride = Inr calls \<and> c \<in> set calls \<longrightarrow>
      ld_st_stride c = stride \<and> operand_location (ld_st_dst c) = res \<and>
      operand_location (ld_st_src c) = src \<and>
      (T = uint16_t \<or> T = bfloat16 \<or> T = half \<longrightarrow>
         ld_st_dst c = reinterpret_cast int32_t res \<and>
         ld_st_src c = reinterpret_cast int32_t src)) \<and>
   (joint_matrix_store tgt T Rows Cols Layout res src stride = Inr calls' \<and> c' \<in> set calls' \<longrightarrow>
      ld_st_stride c' = stride \<and> operand_location (ld_st_dst c') = src \<and>
      operand_location (ld_st_src c') = res \<and>
      (T = half \<longrightarrow>
         ld_st_dst c' = reinterpret_cast int32_t src \<and>
         ld_st_src c' = reinterpret_cast int32_t res))"
proof (intro conjI impI)
  assume h: "joint_matrix_load tgt T Use Rows Cols Layout res src stride = Inr calls \<and> c \<in> set calls"
  then have l: "load T Use Rows Cols Layout res src stride = Some calls" and c: "c \<in> set calls"
    using joint_matrix_load_Inr by blast+
  from load_operands [OF l c]
  show "ld_st_stride c = stride" and "operand_location (ld_st_dst c) = res"
    and "operand_location (ld_st_src c) = src"
    by simp_all
  assume "T = uint16_t \<or> T = bfloat16 \<or> T = half"
  from load_16bit_operands [OF this l c]
  show "ld_st_dst c = reinterpret_cast int32_t res" and "ld_st_src c = reinterpret_cast int32_t src"
    by simp_all
next
  assume h: "joint_matrix_store tgt T Rows Cols Layout res src stride = Inr calls' \<and> c' \<in> set calls'"
  then have l: "store T Rows Cols Layout res src stride = Some calls'" and c: "c' \<in> set calls'"
    using joint_matrix_store_Inr by blast+
  from store_operands [OF l c]
  show "ld_st_stride c' = stride" and "operand_location (ld_st_dst c') = src"
    and "operand_location (ld_st_src c') = res"
    by simp_all
  assume "T = half"
  with store_half_operands l c
  show "ld_st_dst c' = reinterpret_cast int32_t src" and "ld_st_src c' = reinterpret_cast int32_t res"
    by blast+
qed


theorem stride_forwarded_pointers_reinterpreted_witness:
  "joint_matrix_load \<lparr>SYCL_DEVICE_ONLY = True, NVPTX = True\<rparr>
      half accumulator 16 16 row_major (address 0) (address 64) 16 =
     Inr [ld_st ''__hmma_m16n16k16_ld_c_f16'' (reinterpret_cast int32_t (address 0))
            (reinterpret_cast int32_t (address 64)) 16 0] \<and>
   ld_st_stride (ld_st ''__hmma_m16n16k16_ld_c_f16'' (reinterpret_cast int32_t (address 0))
            (reinterpret_cast int32_t (address 64)) 16 0) = 16 \<and>
   joint_matrix_store \<lparr>SYCL_DEVICE_ONLY = True, NVPTX = True\<rparr>
      half 16 16 row_major (address 0) (address 64) 16 =
     Inr [ld_st ''__hmma_m16n16k16_st_c_f16'' (reinterpret_cast int32_t (address 64))
            (reinterpret_cast int32_t (address 0)) 16 0] \<and>
   ld_st_stride (ld_st ''__hmma_m16n16k16_st_c_f16'' (reinterpret_cast int32_t (address 64))
            (reinterpret_cast int32_t (address 0)) 16 0) = 16"
  using stride_forwarded_pointers_reinterpreted
    [where tgt = "\<lparr>SYCL_DEVICE_ONLY = True, NVPTX = True\<rparr>"
       and T = half and Use = accumulator and Rows = 16 and Cols = 16 and Layout = row_major
       and res = "address 0" and src = "address 64" and stride = 16
       and calls = "[ld_st ''__hmma_m16n16k16_ld_c_f16'' (reinterpret_cast int32_t (address 0))
            (reinterpret_cast int32_t (address 64)) 16 0]"
       and c = "ld_st ''__hmma_m16n16k16_ld_c_f16'' (reinterpret_cast int32_t (address 0))
            (reinterpret_cast int32_t (address 64)) 16 0"
       and calls' = "[ld_st ''__hmma_m16n16k16_st_c_f16'' (reinterpret_cast int32_t (address 64))
            (reinterpret_cast int32_t (address 0)) 16 0]"
       and c' = "ld_st ''__hmma_m16n16k16_st_c_f16'' (reinterpret_cast int32_t (address 64))
            (reinterpret_cast int32_t (address 0)) 16 0"]
  by (simp add: joint_matrix_load_def load_def joint_matrix_store_def store_def)

text \<open>
  C6 as stated fails: a 16 by 16 \<open>uint16_t\<close> fragment of use \<open>a\<close>, stored as four
  \<open>int32_t\<close>, loaded with stride 16. The builtin is handed the \<open>int32_t\<close> pointers and
  the stride 16, not 16 divided by the repacking factor.
\<close>

theorem load_uint16_stride_not_divided:
  "joint_matrix uint16_t use_a 16 16 row_major = Some (c_array int32_t 4) \<and>
   joint_matrix_load \<lparr>SYCL_DEVICE_ONLY = True, NVPTX = True\<rparr>
      uint16_t use_a 16 16 row_major (address 0) (address 64) 16 =
     Inr [ld_st ''__mma_bf16_m16n16k16_ld_a'' (reinterpret_cast int32_t (address 0))
            (reinterpret_cast int32_t (address 64)) 16 0] \<and>
   ld_st_stride (ld_st ''__mma_bf16_m16n16k16_ld_a'' (reinterpret_cast int32_t (address 0))
            (reinterpret_cast int32_t (address 64)) 16 0) \<noteq> 16 div 2"
  by (simp add: joint_matrix_def table_defs joint_matrix_load_def load_def)

section \<open>The result of joint_matrix_mad\<close>

text \<open>
  C7. When \<open>joint_matrix_mad\<close> of matrix-tensorcore.hpp returns, the returned \<open>D\<close> has
  the type of the parameter \<open>C\<close> and is the local object of the body, and the caller's
  \<open>C\<close> holds what it held before the call, as does every other object of the caller:
  the builtin works on the by-value copies, whatever it does to them. In
  matrix-unified.hpp the returned \<open>D\<close> is again a local object; \<open>C\<close> is passed by
  reference to \<open>joint_matrix_mad_cuda\<close>, and the store after the call is exactly the
  store that function leaves, or the store as it was when that function is not reached:
  \<open>joint_matrix_mad\<close> itself writes nothing.
\<close>

theorem mad_returns_fresh_D:
  "(joint_matrix_mad tgt hw T1 T2 M K N LayoutA LayoutB LayoutC a b c s = Inr r \<longrightarrow>
      D_type r = mad_type_C T2 M N LayoutC \<and> D_contents r = store_after r D_data \<and>
      store_after r (address c) = s (address c) \<and>
      store_after r (address n) = s (address n)) \<and>
   (joint_matrix_mad_unified tgt' NDEBUG indeterminate mad_cuda Ta Tb Tc M K N LA LB la lb lc s =
      Inr (d, s1) \<longrightarrow>
      (if SYCL_DEVICE_ONLY tgt' \<and> NVPTX tgt' \<and> Ta = Tb
       then d = s1 D_data \<and> s1 = mad_cuda Ta Tc M K N LA LB D_data la lb lc s
       else s1 = s))"
proof (intro conjI impI)
  assume h: "joint_matrix_mad tgt hw T1 T2 M K N LayoutA LayoutB LayoutC a b c s = Inr r"
  define s0 where "s0 = s(A_data := s (address a), B_data := s (address b), C_data := s (address c))"
  from h obtain calls s1 where
    m: "mad hw T1 T2 M K N LayoutA LayoutB LayoutC s0 = Some (calls, s1)" and
    r: "r = \<lparr> D_type = (T2, accumulator, M, N, LayoutC), D_contents = s1 D_data,
                  calls_issued = calls, store_after = s1 \<rparr>"
    by (auto simp: joint_matrix_mad_def s0_def Let_def split: if_splits option.splits)
  show "D_type r = mad_type_C T2 M N LayoutC" by (simp add: r mad_type_C_def)
  show "D_contents r = store_after r D_data" by (simp add: r)
  have "s1 (address k) = s (address k)" for k
    using mad_frame [OF m, of k] by (simp add: s0_def)
  then show "store_after r (address c) = s (address c)" "store_after r (address n) = s (address n)"
    by (simp_all add: r)
next
  assume "joint_matrix_mad_unified tgt' NDEBUG indeterminate mad_cuda Ta Tb Tc M K N LA LB la lb lc s =
      Inr (d, s1)"
  then show "if SYCL_DEVICE_ONLY tgt' \<and> NVPTX tgt' \<and> Ta = Tb
       then d = s1 D_data \<and> s1 = mad_cuda Ta Tc M K N LA LB D_data la lb lc s
       else s1 = s"
    by (auto simp: joint_matrix_mad_unified_def Let_def split: if_splits)
qed

theorem mad_returns_fresh_D_witness:
  "(case joint_matrix_mad \<lparr>SYCL_DEVICE_ONLY = True, NVPTX = True\<rparr>
          (\<lambda>n l sf (d, a, b, c). (a + b + c, 0, 0, 0))
          half float 16 16 16 row_major row_major row_major 0 1 2 (\<lambda>l. 5::nat) of
      Inl e \<Rightarrow> False
    | Inr r \<Rightarrow> D_type r = (float, accumulator, 16, 16, row_major) \<and> D_contents r = 15 \<and>
              store_after r C_data = 0 \<and> store_after r (address 2) = 5 \<and>
              length (calls_issued r) = 1) \<and>
   joint_matrix_mad_unified \<lparr>SYCL_DEVICE_ONLY = True, NVPTX = True\<rparr> False 0
      (\<lambda>Ta Tc M K N LA LB D a b c s. s(D := s a + s b + s c))
      half half float 16 16 16 row_major row_major (address 0) (address 1) (address 2)
      (\<lambda>l. 5::nat) =
    Inr (15, (\<lambda>l. 5)(D_data := 15))"
  using mad_returns_fresh_D
    [where tgt = "\<lparr>SYCL_DEVICE_ONLY = True, NVPTX = True\<rparr>"
       and hw = "\<lambda>n l sf (d, a, b, c). (a + b + c, 0, 0, 0)"
       and ?T1.0 = half and ?T2.0 = float and M = 16 and K = 16 and N = 16
       and LayoutA = row_major and LayoutB = row_major and LayoutC = row_major
       and a = 0 and b = 1 and c = 2 and n = 2 and s = "\<lambda>l. 5::nat"
       and r = "projr (joint_matrix_mad \<lparr>SYCL_DEVICE_ONLY = True, NVPTX = True\<rparr>
          (\<lambda>n l sf (d, a, b, c). (a + b + c, 0, 0, 0))
          half float 16 16 16 row_major row_major row_major 0 1 2 (\<lambda>l. 5::nat))"
       and tgt' = "\<lparr>SYCL_DEVICE_ONLY = True, NVPTX = True\<rparr>"
       and NDEBUG = False and indeterminate = 0
       and mad_cuda = "\<lambda>Ta Tc M K N LA LB D a b c s. s(D := s a + s b + s c)"
       and Ta = half and Tb = half and Tc = float and LA = row_major and LB = row_major
       and la = "address 0" and lb = "address 1" and lc = "address 2"
       and d = 15 and ?s1.0 = "(\<lambda>l. 5)(D_data := 15)"]
  by (simp add: joint_matrix_mad_def mad_def joint_matrix_mad_unified_def mad_type_C_def)

section \<open>Operands of different element types\<close>




section \<open>Calls outside a CUDA device\<close>

text \<open>
  C5 (as amended). The entry points of matrix-tensorcore.hpp (\<open>joint_matrix_load\<close>,
  \<open>joint_matrix_store\<close>, \<open>joint_matrix_mad\<close>) throw a \<open>runtime_error\<close> that names the
  situation in every compilation that is not a device compilation for NVPTX, and nothing
  else happens. Those of matrix-unified.hpp (both loads, the store, the multiply-accumulate,
  the fill) throw one in every host compilation. In a device compilation for another
  target the loads, the store and the fill of matrix-unified.hpp have an empty body: they
  return normally and leave everything as it is.
\<close>

theorem host_execution_fails:
  "(\<not> (SYCL_DEVICE_ONLY tgt \<and> NVPTX tgt) \<longrightarrow>
      joint_matrix_load tgt T Use Rows Cols Layout res src stride =
        Inl (runtime_error
          ''When using SYCL_EXT_ONEAPI_MATRIX=3 joint_matrix_load is only supported by CUDA devices''
          PI_INVALID_DEVICE) \<and>
      joint_matrix_store tgt T Rows Cols Layout res src stride =
        Inl (runtime_error
          ''When using SYCL_EXT_ONEAPI_MATRIX=3 joint_matrix_store is only supported by CUDA devices''
          PI_INVALID_DEVICE) \<and>
      joint_matrix_mad tgt hw T1 T2 M K N LayoutA LayoutB LayoutC a b c s =
        Inl (runtime_error
          ''When using SYCL_EXT_ONEAPI_MATRIX=3 joint_matrix_mad is only supported by CUDA devices''
          PI_INVALID_DEVICE)) \<and>
   (\<not> SYCL_DEVICE_ONLY tgt \<longrightarrow>
      joint_matrix_load_unified tgt load_multiplicand_cuda res src stride s =
        Inl (runtime_error unified_message PI_ERROR_INVALID_DEVICE) \<and>
      joint_matrix_load_dynamic tgt load_accumulator_cuda res src stride LayoutAcc s =
        Inl (runtime_error unified_message PI_ERROR_INVALID_DEVICE) \<and>
      joint_matrix_store_unified tgt joint_matrix_store_cuda res src stride LayoutAcc s =
        Inl (runtime_error unified_message PI_ERROR_INVALID_DEVICE) \<and>
      joint_matrix_mad_unified tgt NDEBUG indeterminate joint_matrix_mad_cuda
          Ta Tb Tc M K N LA LB la lb lc s =
        Inl (runtime_error unified_message PI_ERROR_INVALID_DEVICE) \<and>
      joint_matrix_fill tgt marray_assign res v s =
        Inl (runtime_error unified_message PI_ERROR_INVALID_DEVICE)) \<and>
   (SYCL_DEVICE_ONLY tgt \<and> \<not> NVPTX tgt \<longrightarrow>
      joint_matrix_load_unified tgt load_multiplicand_cuda res src stride s = Inr s \<and>
      joint_matrix_load_dynamic tgt load_accumulator_cuda res src stride LayoutAcc s = Inr s \<and>
      joint_matrix_store_unified tgt joint_matrix_store_cuda res src stride LayoutAcc s = Inr s \<and>
      joint_matrix_fill tgt marray_assign res v s = Inr s)"
  by (simp add: joint_matrix_load_def joint_matrix_store_def joint_matrix_mad_def
      joint_matrix_load_unified_def joint_matrix_load_dynamic_def joint_matrix_store_unified_def
      joint_matrix_mad_unified_def joint_matrix_fill_def)

theorem host_execution_fails_witness:
  "joint_matrix_load \<lparr>SYCL_DEVICE_ONLY = False, NVPTX = False\<rparr>
      half use_a 16 16 row_major (address 0) (address 64) 16 =
     Inl (runtime_error
       ''When using SYCL_EXT_ONEAPI_MATRIX=3 joint_matrix_load is only supported by CUDA devices''
       PI_INVALID_DEVICE) \<and>
   joint_matrix_mad_unified \<lparr>SYCL_DEVICE_ONLY = False, NVPTX = False\<rparr> False 0
      (\<lambda>Ta Tc M K N LA LB D a b c s. s(D := s a + s b + s c))
      half half float 16 16 16 row_major col_major (address 0) (address 1) (address 2)
      (\<lambda>l. 5::nat) =
     Inl (runtime_error unified_message PI_ERROR_INVALID_DEVICE) \<and>
   joint_matrix_store_unified \<lparr>SYCL_DEVICE_ONLY = True, NVPTX = False\<rparr>
      (\<lambda>src dst stride L s. s(dst := s src)) (address 0) (address 64) 16 row_major
      ((\<lambda>l. 5::nat)(address 0 := 7)) =
     Inr ((\<lambda>l. 5)(address 0 := 7))"
  using host_execution_fails
    [where tgt = "\<lparr>SYCL_DEVICE_ONLY = False, NVPTX = False\<rparr>"
       and T = half and Use = use_a and Rows = 16 and Cols = 16 and Layout = row_major
       and res = "address 0" and src = "address 64" and stride = 16
       and NDEBUG = False and indeterminate = "0::nat"
       and joint_matrix_mad_cuda = "\<lambda>Ta Tc M K N LA LB D a b c s. s(D := s a + s b + s c)"
       and Ta = half and Tb = half and Tc = float and M = 16 and K = 16 and N = 16
       and LA = row_major and LB = col_major
       and la = "address 0" and lb = "address 1" and lc = "address 2" and s = "\<lambda>l. 5::nat"]
    host_execution_fails
    [where tgt = "\<lparr>SYCL_DEVICE_ONLY = True, NVPTX = False\<rparr>"
       and joint_matrix_store_cuda = "\<lambda>src dst stride L s. s(dst := s src)"
       and res = "address 0" and src = "address 64" and stride = 16 and LayoutAcc = row_major
       and s = "(\<lambda>l. 5::nat)(address 0 := 7)"]
  by (simp add: joint_matrix_load_def joint_matrix_mad_unified_def joint_matrix_store_unified_def)

text \<open>
  C5 as stated fails: the store of matrix-unified.hpp in a device compilation that is not
  for NVPTX. The call is outside a CUDA device; it throws nothing and returns, and the
  memory that a store would have written is as before.
\<close>

theorem unified_store_off_cuda_returns_normally:
  "joint_matrix_store_unified \<lparr>SYCL_DEVICE_ONLY = True, NVPTX = False\<rparr>
      (\<lambda>src dst stride L s. s(dst := s src)) (address 0) (address 64) 16 row_major
      ((\<lambda>l. 5::nat)(address 0 := 7)) =
     Inr ((\<lambda>l. 5)(address 0 := 7))"
  by (simp add: joint_matrix_store_unified_def)


section \<open>round_to_tf32 on the host\<close>

text \<open>
  C10. Outside a device compilation for NVPTX, \<open>round_to_tf32\<close> returns the bit pattern
  of \<open>a\<close> plus \<open>0x1000\<close> (in 32 bits, wrapping around) with \<open>0xFFFFE000\<close> as mask: its
  bottom 13 bits are zero, and as an unsigned number it is the sum rounded down to a
  multiple of \<open>2^13\<close>. The referenced \<open>a\<close> is as it was.
\<close>

theorem round_to_tf32_host:
  assumes "\<not> (SYCL_DEVICE_ONLY tgt \<and> NVPTX tgt)"
  shows "round_to_tf32 tgt nvvm_f2tf32_rna a = ((a + 0x1000) AND 0xFFFFE000, a) \<and>
         fst (round_to_tf32 tgt nvvm_f2tf32_rna a) AND 0x1FFF = 0 \<and>
         unat (fst (round_to_tf32 tgt nvvm_f2tf32_rna a)) =
           ((unat a + 4096) mod 2 ^ 32) div 8192 * 8192"
proof -
  have r: "round_to_tf32 tgt nvvm_f2tf32_rna a = ((a + 0x1000) AND 0xFFFFE000, a)"
    using assms by (auto simp: round_to_tf32_def Let_def)
  have z: "((a + 0x1000) AND 0xFFFFE000) AND 0x1FFF = 0"
    by (simp add: and.assoc)
  have u: "unat ((a + 0x1000) AND 0xFFFFE000) = ((unat a + 4096) mod 2 ^ 32) div 8192 * 8192"
    by (simp add: unat_mask unat_word_ariths)
  from r z u show ?thesis by simp
qed

theorem round_to_tf32_host_witness:
  "round_to_tf32 \<lparr>SYCL_DEVICE_ONLY = False, NVPTX = False\<rparr> (\<lambda>x. x) 0x3F801234 =
     (0x3F802000, 0x3F801234) \<and>
   round_to_tf32 \<lparr>SYCL_DEVICE_ONLY = False, NVPTX = False\<rparr> (\<lambda>x. x) 0x3F800FFF =
     (0x3F800000, 0x3F800FFF) \<and>
   round_to_tf32 \<lparr>SYCL_DEVICE_ONLY = True, NVPTX = False\<rparr> (\<lambda>x. x) 0xFFFFFFFF =
     (0, 0xFFFFFFFF)"
  using round_to_tf32_host [of "\<lparr>SYCL_DEVICE_ONLY = False, NVPTX = False\<rparr>" "\<lambda>x. x" "0x3F801234"]
    round_to_tf32_host [of "\<lparr>SYCL_DEVICE_ONLY = False, NVPTX = False\<rparr>" "\<lambda>x. x" "0x3F800FFF"]
    round_to_tf32_host [of "\<lparr>SYCL_DEVICE_ONLY = True, NVPTX = False\<rparr>" "\<lambda>x. x" "0xFFFFFFFF"]
  by simp

section \<open>Peer access\<close>

text \<open>
  C9. Each of the three adapter calls runs its driver call with the command device's
  context active and returns with the context that was active before, whether the
  driver call succeeds or fails (and, for the query, when the property is not one of the
  two it knows, in which case no driver call is made). The driver call is made once. Its
  failure comes back as the status the error map gives it; the result is always a status,
  never an exception that leaves the function.
\<close>

theorem peer_access_context_scoped_errors_returned:
  "(let scoped = st\<lparr>active_context := Some (getNativeContext commandDevice)\<rparr>;
        call = hipCtxEnablePeerAccess (getNativeContext peerDevice) 0;
        e = fst (drv scoped call);
        (result, st') = urUsmP2PEnablePeerAccessExp drv map_error commandDevice peerDevice st
    in result = Inr (if e = hipSuccess then UR_RESULT_SUCCESS else map_error e) \<and>
       active_context st' = active_context st \<and>
       driver_log st' = driver_log st @ [(Some (getNativeContext commandDevice), call)]) \<and>
   (let scoped = st\<lparr>active_context := Some (getNativeContext commandDevice)\<rparr>;
        call = hipCtxDisablePeerAccess (getNativeContext peerDevice);
        e = fst (drv scoped call);
        (result, st') = urUsmP2PDisablePeerAccessExp drv map_error commandDevice peerDevice st
    in result = Inr (if e = hipSuccess then UR_RESULT_SUCCESS else map_error e) \<and>
       active_context st' = active_context st \<and>
       driver_log st' = driver_log st @ [(Some (getNativeContext commandDevice), call)]) \<and>
   (let scoped = st\<lparr>active_context := Some (getNativeContext commandDevice)\<rparr>;
        (result, st') = urUsmP2PPeerAccessGetInfoExp drv map_error ReturnValue
                          commandDevice peerDevice propName st
    in active_context st' = active_context st \<and>
       (case propName of
          UR_EXP_PEER_INFO_UR_PEER_ACCESS_SUPPORTED \<Rightarrow>
            (let call = hipDeviceGetP2PAttribute hipDevP2PAttrAccessSupported
                          (get_device commandDevice) (get_device peerDevice);
                 r = drv scoped call
             in result = Inr (if fst r = hipSuccess then ReturnValue (snd r) else map_error (fst r)) \<and>
                driver_log st' = driver_log st @ [(Some (getNativeContext commandDevice), call)])
        | UR_EXP_PEER_INFO_UR_PEER_ATOMICS_SUPPORTED \<Rightarrow>
            (let call = hipDeviceGetP2PAttribute hipDevP2PAttrNativeAtomicSupported
                          (get_device commandDevice) (get_device peerDevice);
                 r = drv scoped call
             in result = Inr (if fst r = hipSuccess then ReturnValue (snd r) else map_error (fst r)) \<and>
                driver_log st' = driver_log st @ [(Some (getNativeContext commandDevice), call)])
        | peer_info_other k \<Rightarrow>
            result = Inr UR_RESULT_ERROR_INVALID_ENUMERATION \<and> driver_log st' = driver_log st))"
  by (cases propName)
     (simp_all add: urUsmP2PEnablePeerAccessExp_def urUsmP2PDisablePeerAccessExp_def
        urUsmP2PPeerAccessGetInfoExp_def p2p_defs Let_def split: prod.splits)

theorem peer_access_context_scoped_errors_returned_witness:
  "urUsmP2PEnablePeerAccessExp (\<lambda>st c. (hipError 217, 0)) (\<lambda>e. UR_RESULT_ERROR 1)
      \<lparr>getNativeContext = 10, get_device = 0\<rparr> \<lparr>getNativeContext = 11, get_device = 1\<rparr>
      \<lparr>active_context = Some 3, driver_log = []\<rparr> =
     (Inr (UR_RESULT_ERROR 1),
      \<lparr>active_context = Some 3, driver_log = [(Some 10, hipCtxEnablePeerAccess 11 0)]\<rparr>)"
  using peer_access_context_scoped_errors_returned
    [where drv = "\<lambda>st c. (hipError 217, 0)" and map_error = "\<lambda>e. UR_RESULT_ERROR 1"
       and commandDevice = "\<lparr>getNativeContext = 10, get_device = 0\<rparr>"
       and peerDevice = "\<lparr>getNativeContext = 11, get_device = 1\<rparr>"
       and st = "\<lparr>active_context = Some 3, driver_log = []\<rparr>"]
  by (simp add: urUsmP2PEnablePeerAccessExp_def p2p_defs)

end
